theory Spec2Isabelle
  imports Complex_Main
begin

section \<open>Data model\<close>

text \<open>
  The module \<^verbatim>\<open>chapter_04/classification.py\<close> works on pandas series and frames of
  float64 numbers. Means, covariances and scores are modelled as exact reals; rounding to
  float64 is modelled where a property turns on it: the prior probabilities are rounded
  quotients, and the example of \<^verbatim>\<open>np.linalg.inv\<close> eliminates in float64 arithmetic.
  Labels are values of any linearly ordered type (Python: hashable and orderable).
  A label vector is the list of its labels in row order, a feature matrix the list of its
  rows; the number of feature columns \<open>p\<close> is carried separately where a matrix may have
  no rows. Columns carry their default names and are matched by position. Rows carry the
  default index \<open>0, 1, \<dots>\<close> unless an index is given with them.
\<close>

type_synonym vec = "real list"
type_synonym matrix = "real list list"

text \<open>
  A frame built column by column (\<^verbatim>\<open>y[cls] = ...\<close>): the columns in insertion order, each
  with its label.
\<close>

type_synonym ('a, 'b) frame = "('a \<times> 'b list) list"

text \<open>A series with its row index: the pairs of index label and value, in row order.\<close>

type_synonym 'a series = "(nat \<times> 'a) list"

text \<open>
  What a call does: it raises, or it returns. \<open>Return\<close> is a call in which every float
  is a real number. \<open>NaN\<close> stands for a call that returns without raising after a float
  that is no real number has come up in it (numpy's division by zero, which only warns,
  the mean of nothing, the logarithm of a non-positive number); what such a call returns
  is not modelled further. Where the source returns an object whose fields hold NaN, and a
  property depends on it, the object is modelled with those fields marked.
\<close>

datatype py_error = LinAlgError | ValueError | KeyError

datatype 'a result = Raise py_error | NaN | Return 'a

text \<open>Sequencing: the next step runs on what the previous one returned.\<close>

definition rbind :: "'a result \<Rightarrow> ('a \<Rightarrow> 'b result) \<Rightarrow> 'b result" where
  "rbind r f = (case r of Raise e \<Rightarrow> Raise e | NaN \<Rightarrow> NaN | Return x \<Rightarrow> f x)"

text \<open>
  A loop that collects one result per element. It stops at the first element that raises;
  an element whose result is NaN does not stop the loop, it spoils what the loop returns.
\<close>

fun traverse :: "('a \<Rightarrow> 'b result) \<Rightarrow> 'a list \<Rightarrow> 'b list result" where
  "traverse f [] = Return []"
| "traverse f (x # xs) =
     (case f x of
        Raise e \<Rightarrow> Raise e
      | NaN \<Rightarrow> (case traverse f xs of Raise e \<Rightarrow> Raise e | NaN \<Rightarrow> NaN | Return ys \<Rightarrow> NaN)
      | Return y \<Rightarrow>
          (case traverse f xs of
             Raise e \<Rightarrow> Raise e
           | NaN \<Rightarrow> NaN
           | Return ys \<Rightarrow> Return (y # ys)))"

text \<open>\<^verbatim>\<open>s.loc[key]\<close>, \<^verbatim>\<open>d[key]\<close>: lookup by label; a missing label raises \<^verbatim>\<open>KeyError\<close>.\<close>

definition loc :: "('a \<times> 'b) list \<Rightarrow> 'a \<Rightarrow> 'b result" where
  "loc s key = (case map_of s key of None \<Rightarrow> Raise KeyError | Some v \<Rightarrow> Return v)"

definition wf_matrix :: "nat \<Rightarrow> nat \<Rightarrow> matrix \<Rightarrow> bool" where
  "wf_matrix n p A = (length A = n \<and> list_all (\<lambda>r. length r = p) A)"

section \<open>The class set and the indicator matrix\<close>

text \<open>\<^verbatim>\<open>sorted(set(values))\<close>: the distinct labels, ascending.\<close>

definition sorted_set :: "'a::linorder list \<Rightarrow> 'a list" where
  "sorted_set values = sort (remdups values)"

text \<open>\<^verbatim>\<open>y[cls] = col\<close> on a frame: replaces the column of that label, or appends a new one.\<close>

fun set_column :: "('a, 'b) frame \<Rightarrow> 'a \<Rightarrow> 'b list \<Rightarrow> ('a, 'b) frame" where
  "set_column [] cls col = [(cls, col)]"
| "set_column ((c, old) # y) cls col =
     (if c = cls then (c, col) # y else (c, old) # set_column y cls col)"

text \<open>\<^verbatim>\<open>y.astype(int)\<close> on a frame of booleans.\<close>

definition astype_int :: "('a, bool) frame \<Rightarrow> ('a, int) frame" where
  "astype_int y = map (\<lambda>(c, col). (c, map of_bool col)) y"

text \<open>
  \<^verbatim>\<open>indicator_matrix(values)\<close>: the loop over the classes adds one boolean column per
  class, \<^verbatim>\<open>values == cls\<close>, to a frame that starts empty.
\<close>

definition indicator_matrix :: "'a::linorder list \<Rightarrow> ('a, int) frame result" where
  "indicator_matrix values =
     Return (astype_int (foldl (\<lambda>y cls. set_column y cls (map (\<lambda>v. v = cls) values)) []
                               (sorted_set values)))"

text \<open>The entry of a frame at row \<open>i\<close> and column position \<open>j\<close>.\<close>

definition cell :: "('a, 'b) frame \<Rightarrow> nat \<Rightarrow> nat \<Rightarrow> 'b" where
  "cell y i j = snd (y ! j) ! i"

section \<open>Argmax of a row\<close>

text \<open>
  \<^verbatim>\<open>row.idxmax()\<close>: the label of the first position holding the maximum. The scan keeps
  the best position so far and moves only on a strictly greater entry. On an empty row
  pandas raises \<^verbatim>\<open>ValueError\<close>.
\<close>

fun argmax_scan :: "nat \<Rightarrow> real \<Rightarrow> nat \<Rightarrow> real list \<Rightarrow> nat" where
  "argmax_scan best bv i [] = best"
| "argmax_scan best bv i (x # xs) =
     (if bv < x then argmax_scan i x (Suc i) xs else argmax_scan best bv (Suc i) xs)"

definition argmax :: "real list \<Rightarrow> nat" where
  "argmax row = (case row of [] \<Rightarrow> 0 | x # xs \<Rightarrow> argmax_scan 0 x 1 xs)"

definition idxmax :: "'a list \<Rightarrow> real list \<Rightarrow> 'a result" where
  "idxmax cols row = (if row = [] then Raise ValueError else Return (cols ! argmax row))"

text \<open>
  \<^verbatim>\<open>df.apply(lambda row: row.idxmax(), axis=1)\<close>: one label per row, or the first error.
\<close>

definition apply_idxmax :: "'a list \<Rightarrow> matrix \<Rightarrow> 'a list result" where
  "apply_idxmax cols rows = traverse (idxmax cols) rows"

section \<open>Arrays\<close>

text \<open>
  The numpy operations the classifiers use, on matrices as lists of rows. Where a matrix
  may have no rows, the number of its columns is an argument. The shape checks of
  \<^verbatim>\<open>np.dot\<close> are made where it is called.
\<close>

definition dot :: "vec \<Rightarrow> vec \<Rightarrow> real" where
  "dot u v = sum_list (map (\<lambda>a. u ! a * v ! a) [0..<length u])"

definition column :: "matrix \<Rightarrow> nat \<Rightarrow> vec" where
  "column A j = map (\<lambda>r. r ! j) A"

text \<open>\<^verbatim>\<open>np.dot(A, B)\<close> for \<open>B\<close> with \<open>k\<close> columns.\<close>

definition np_dot :: "nat \<Rightarrow> matrix \<Rightarrow> matrix \<Rightarrow> matrix" where
  "np_dot k A B = map (\<lambda>r. map (\<lambda>j. dot r (column B j)) [0..<k]) A"

text \<open>\<^verbatim>\<open>A.T\<close> for \<open>A\<close> with \<open>p\<close> columns.\<close>

definition np_transpose :: "nat \<Rightarrow> matrix \<Rightarrow> matrix" where
  "np_transpose p A = map (column A) [0..<p]"

definition outer :: "vec \<Rightarrow> vec \<Rightarrow> matrix" where
  "outer u v = map (\<lambda>x. map (\<lambda>y. x * y) v) u"

definition vec_sub :: "vec \<Rightarrow> vec \<Rightarrow> vec" where
  "vec_sub u v = map (\<lambda>a. u ! a - v ! a) [0..<length u]"

definition mat_add :: "matrix \<Rightarrow> matrix \<Rightarrow> matrix" where
  "mat_add A B = map (\<lambda>i. map (\<lambda>j. A ! i ! j + B ! i ! j) [0..<length (A ! i)]) [0..<length A]"

text \<open>Elementwise product of two frames of one shape, then \<^verbatim>\<open>.sum(1)\<close>: one sum per row.\<close>

definition mul_sum1 :: "matrix \<Rightarrow> matrix \<Rightarrow> vec" where
  "mul_sum1 A B = map (\<lambda>i. dot (A ! i) (B ! i)) [0..<length A]"

section \<open>Floats\<close>

text \<open>
  Rounding to float64: the nearest number with a significand of 53 bits, ties to the even
  significand. \<open>frexp\<close> scales a positive number into \<open>[1, 2)\<close> and counts the doublings.
  The exponent range is not bounded in the model: no overflow to infinity and no
  subnormal numbers.
\<close>

fun frexp :: "nat \<Rightarrow> real \<Rightarrow> int \<Rightarrow> real \<times> int" where
  "frexp fuel x e =
     (if fuel = 0 then (x, e)
      else if x < 1 then frexp (fuel - 1) (2 * x) (e - 1)
      else if 2 \<le> x then frexp (fuel - 1) (x / 2) (e + 1)
      else (x, e))"

declare frexp.simps [simp del]

definition round_half_even :: "real \<Rightarrow> int" where
  "round_half_even r =
     (let f = \<lfloor>r\<rfloor>
      in if r - of_int f < 1 / 2 then f
         else if 1 / 2 < r - of_int f then f + 1
         else if even f then f else f + 1)"

definition float64 :: "real \<Rightarrow> real" where
  "float64 x =
     (if x = 0 then 0
      else case frexp 1100 \<bar>x\<bar> 0 of
             (m, e) \<Rightarrow> sgn x * of_int (round_half_even (m * 2 ^ 52)) * 2 powi (e - 52))"

text \<open>\<^verbatim>\<open>s.sum()\<close> of a float series of fewer than eight entries: added up from the left.\<close>

definition float_sum :: "real list \<Rightarrow> real" where
  "float_sum xs = foldl (\<lambda>s x. float64 (s + x)) 0 xs"

section \<open>The fitted classifiers and \<^verbatim>\<open>classify\<close>\<close>

text \<open>
  A series or frame indexed by the classes is the list of its (class, value) pairs in
  index order. An entry of such a series that is no real number is \<open>None\<close>. An array is
  a matrix of real numbers, or an array of the given numbers of rows and columns, neither
  of them zero, whose entries are all NaN.
\<close>

datatype ndarray = Finite matrix | AllNaN nat nat

record 'a least_squares_classifier =
  ls_classes :: "'a list"
  betahat :: matrix

record 'a linear_discriminant_classifier =
  lda_classes :: "'a list"
  lda_probabilities :: "('a \<times> real) list"
  lda_means :: "('a \<times> vec) list"
  sigma :: ndarray
  sigma_inv :: ndarray
  lda_constants :: "('a \<times> real option) list"
  discrimination_matrix :: ndarray

record 'a quadratic_discriminant_classifier =
  qda_classes :: "'a list"
  qda_probabilities :: "('a \<times> real) list"
  qda_means :: "('a \<times> vec) list"
  covariance :: "('a \<times> matrix) list"
  covariance_inv :: "('a \<times> matrix) list"
  covariance_det :: "('a \<times> real) list"
  qda_constants :: "('a \<times> real option) list"

text \<open>
  \<^verbatim>\<open>samples.dot(self.betahat)\<close>: the rows of \<open>betahat\<close> are the feature columns, its
  columns the classes; samples of another width raise.
\<close>

definition ls_scores :: "'a least_squares_classifier \<Rightarrow> matrix \<Rightarrow> matrix result" where
  "ls_scores m samples =
     (if list_all (\<lambda>x. length x = length (betahat m)) samples
      then Return (np_dot (length (ls_classes m)) samples (betahat m))
      else Raise ValueError)"

text \<open>
  The labels \<^verbatim>\<open>classify\<close> returns, in row order.
\<close>

definition ls_classify :: "'a least_squares_classifier \<Rightarrow> matrix \<Rightarrow> 'a list result" where
  "ls_classify m samples = rbind (ls_scores m samples) (apply_idxmax (ls_classes m))"

text \<open>
  \<^verbatim>\<open>df + self.constants\<close>: the series is matched to the columns by label and added to
  every row. A constant that is NaN, or a series with another index, leaves NaN in the
  frame.
\<close>

definition add_series :: "'a list \<Rightarrow> matrix \<Rightarrow> ('a \<times> real option) list \<Rightarrow> matrix result" where
  "add_series cols rows s =
     (if map fst s = cols \<and> list_all (\<lambda>(c, v). v \<noteq> None) s
      then Return (map (\<lambda>r. map (\<lambda>j. r ! j + the (snd (s ! j))) [0..<length cols]) rows)
      else NaN)"

text \<open>
  \<^verbatim>\<open>pd.DataFrame(np.dot(samples, self.discrimination_matrix), columns=self.classes)\<close>
  raises when the widths do not match or the product has not one column per class. With a
  discrimination matrix of NaN every entry of the product is NaN.
\<close>

definition lda_scores :: "'a linear_discriminant_classifier \<Rightarrow> matrix \<Rightarrow> matrix result" where
  "lda_scores m samples =
     (case discrimination_matrix m of
        Finite D \<Rightarrow>
          if list_all (\<lambda>x. length x = length D) samples
             \<and> list_all (\<lambda>r. length r = length (lda_classes m)) D
          then add_series (lda_classes m) (np_dot (length (lda_classes m)) samples D)
                 (lda_constants m)
          else Raise ValueError
      | AllNaN r c \<Rightarrow>
          if list_all (\<lambda>x. length x = r) samples \<and> c = length (lda_classes m)
          then (if samples = [] then Return [] else NaN)
          else Raise ValueError)"

definition lda_classify :: "'a linear_discriminant_classifier \<Rightarrow> matrix \<Rightarrow> 'a list result" where
  "lda_classify m samples = rbind (lda_scores m samples) (apply_idxmax (lda_classes m))"

text \<open>
  One pass of the loop in \<^verbatim>\<open>QuadraticDiscriminantClassifier.classify\<close>: the column of
  scores of one class. \<^verbatim>\<open>samples - mu\<close> matches the columns of the samples to the
  entries of the mean by name: narrower samples get NaN in the columns they lack, and
  \<^verbatim>\<open>.sum(1)\<close>, which skips NaN, then leaves the constant alone; wider samples make
  \<^verbatim>\<open>np.dot\<close> raise.
\<close>

definition qda_column ::
  "'a quadratic_discriminant_classifier \<Rightarrow> matrix \<Rightarrow> 'a \<Rightarrow> vec result" where
  "qda_column m samples cls =
     rbind (loc (qda_constants m) cls) (\<lambda>const.
     rbind (loc (qda_means m) cls) (\<lambda>mu.
     let xs = map (\<lambda>x. vec_sub x mu) samples in
     rbind (loc (covariance_inv m) cls) (\<lambda>sigma_inv.
     if list_ex (\<lambda>x. length mu < length x) samples
        \<or> (samples \<noteq> [] \<and> length mu \<noteq> length sigma_inv)
     then Raise ValueError
     else case const of
       None \<Rightarrow> NaN
     | Some c \<Rightarrow>
         if list_all (\<lambda>x. length x = length mu) samples
         then Return (map (\<lambda>q. c - 0.5 * q)
                (mul_sum1 xs
                   (np_transpose (length samples)
                      (np_dot (length samples) sigma_inv (np_transpose (length mu) xs)))))
         else Return (map (\<lambda>x. c - 0.5 * 0) samples))))"

text \<open>
  \<^verbatim>\<open>pd.concat(columns, axis=1)\<close> puts the columns side by side, in class order; with no
  column at all it raises.
\<close>

definition qda_scores :: "'a quadratic_discriminant_classifier \<Rightarrow> matrix \<Rightarrow> matrix result" where
  "qda_scores m samples =
     rbind (traverse (qda_column m samples) (qda_classes m)) (\<lambda>columns.
       if columns = [] then Raise ValueError
       else Return (np_transpose (length samples) columns))"

definition qda_classify :: "'a quadratic_discriminant_classifier \<Rightarrow> matrix \<Rightarrow> 'a list result" where
  "qda_classify m samples = rbind (qda_scores m samples) (apply_idxmax (qda_classes m))"

text \<open>
  The series \<^verbatim>\<open>classify\<close> returns, for samples given with their row index; a label that
  is NaN is \<open>None\<close>. The least squares and the quadratic classifier compute on the frame
  of the samples and keep its index. The linear classifier builds its frame anew from an
  array, which numbers the rows from 0; when its discrimination matrix is NaN, every row
  of scores is NaN and \<^verbatim>\<open>idxmax\<close> of such a row is NaN.
\<close>

definition ls_classify_series ::
  "'a least_squares_classifier \<Rightarrow> vec series \<Rightarrow> 'a option series result" where
  "ls_classify_series m samples =
     rbind (ls_classify m (map snd samples)) (\<lambda>labels.
       Return (zip (map fst samples) (map Some labels)))"

definition lda_classify_series ::
  "'a linear_discriminant_classifier \<Rightarrow> vec series \<Rightarrow> 'a option series result" where
  "lda_classify_series m samples =
     (case lda_classify m (map snd samples) of
        Raise e \<Rightarrow> Raise e
      | Return labels \<Rightarrow> Return (zip [0..<length samples] (map Some labels))
      | NaN \<Rightarrow>
          (case discrimination_matrix m of
             AllNaN r c \<Rightarrow> Return (map (\<lambda>i. (i, None)) [0..<length samples])
           | Finite D \<Rightarrow> NaN))"

definition qda_classify_series ::
  "'a quadratic_discriminant_classifier \<Rightarrow> vec series \<Rightarrow> 'a option series result" where
  "qda_classify_series m samples =
     rbind (qda_classify m (map snd samples)) (\<lambda>labels.
       Return (zip (map fst samples) (map Some labels)))"

section \<open>Error rate\<close>



section \<open>Fitting\<close>

text \<open>
  \<^verbatim>\<open>np.linalg.inv\<close> and \<^verbatim>\<open>np.linalg.det\<close> are library routines: the constructors take
  them as the parameters \<open>linalg_inv\<close> and \<open>linalg_det\<close>. \<open>linalg_inv A = None\<close> stands for
  \<^verbatim>\<open>LinAlgError\<close>. What is assumed of them is written where a property needs it.
\<close>

definition eye :: "nat \<Rightarrow> matrix" where
  "eye p = map (\<lambda>i. map (\<lambda>j. if i = j then 1 else 0) [0..<p]) [0..<p]"

text \<open>\<open>G\<close> is the inverse of the \<open>p\<close> by \<open>p\<close> matrix \<open>A\<close>.\<close>

definition is_inverse :: "nat \<Rightarrow> matrix \<Rightarrow> matrix \<Rightarrow> bool" where
  "is_inverse p A G = (wf_matrix p p G \<and> np_dot p A G = eye p \<and> np_dot p G A = eye p)"

text \<open>The array of a frame with \<open>n\<close> rows, as \<^verbatim>\<open>np.dot\<close> reads it.\<close>

definition frame_values :: "nat \<Rightarrow> ('a, int) frame \<Rightarrow> matrix" where
  "frame_values n y = map (\<lambda>i. map (\<lambda>(c, col). real_of_int (col ! i)) y) [0..<n]"

text \<open>
  \<^verbatim>\<open>LeastSquaresClassifier.__init__\<close>, for \<open>coords\<close> with \<open>p\<close> columns. The last
  \<^verbatim>\<open>np.dot\<close> raises when there are not as many labels as rows.
\<close>

definition ls_fit ::
  "(matrix \<Rightarrow> matrix option) \<Rightarrow> nat \<Rightarrow> matrix \<Rightarrow> 'a::linorder list
     \<Rightarrow> 'a least_squares_classifier result" where
  "ls_fit linalg_inv p coords values =
     (let classes = sorted_set values in
      rbind (indicator_matrix values) (\<lambda>value_indicator_matrix.
      case linalg_inv (np_dot p (np_transpose p coords) coords) of
        None \<Rightarrow> Raise LinAlgError
      | Some inverse_cov \<Rightarrow>
          if length coords \<noteq> length values then Raise ValueError
          else Return \<lparr>ls_classes = classes,
                 betahat = np_dot (length classes)
                             (np_dot (length coords) inverse_cov (np_transpose p coords))
                             (frame_values (length values) value_indicator_matrix)\<rparr>))"

text \<open>
  \<^verbatim>\<open>pd.Series(collections.Counter(values), index=self.classes) / values.size\<close>: the count
  of each class over the number of labels, a division of floats. Counts and sizes below
  \<open>2\<^sup>5\<^sup>3\<close> are floats as they are.
\<close>

definition probabilities :: "'a::linorder list \<Rightarrow> ('a \<times> real) list" where
  "probabilities values =
     map (\<lambda>c. (c, float64 (real (count_list values c) / real (length values))))
       (sorted_set values)"

text \<open>
  \<^verbatim>\<open>x2['y'] = values\<close> matches the labels to the rows by index: a row past the last
  label gets NaN for its label, labels past the last row are left out.
\<close>

definition row_labels :: "nat \<Rightarrow> 'a list \<Rightarrow> 'a option list" where
  "row_labels n values = map (\<lambda>i. if i < length values then Some (values ! i) else None) [0..<n]"

text \<open>\<^verbatim>\<open>x2[x2['y'] == cls]\<close> without the label column: the rows of one class.\<close>

definition selected :: "matrix \<Rightarrow> 'a list \<Rightarrow> 'a \<Rightarrow> matrix" where
  "selected coords values cls = map fst (filter (\<lambda>(x, y). y = cls) (zip coords values))"

text \<open>\<^verbatim>\<open>v.mean()\<close>: the mean of each of the \<open>p\<close> columns.\<close>

definition col_means :: "nat \<Rightarrow> matrix \<Rightarrow> vec" where
  "col_means p rows = map (\<lambda>a. sum_list (column rows a) / real (length rows)) [0..<p]"

text \<open>
  \<^verbatim>\<open>x2.groupby('y').apply(lambda v: v.mean()).drop('y', 1)\<close>: one row of column means per
  class that labels a row, in ascending order of the classes. \<open>numeric\<close> tells whether
  the labels are numbers: of labels that are not, such as strings, \<^verbatim>\<open>v.mean()\<close> has no
  mean and leaves the column \<^verbatim>\<open>y\<close> out, and \<^verbatim>\<open>.drop('y', 1)\<close> raises on the missing
  column.
\<close>

definition means :: "bool \<Rightarrow> nat \<Rightarrow> matrix \<Rightarrow> 'a::linorder list \<Rightarrow> ('a \<times> vec) list result" where
  "means numeric p coords values =
     (if numeric
      then Return (map (\<lambda>c. (c, col_means p (selected coords values c)))
                     (sorted_set (take (length coords) values)))
      else Raise KeyError)"

definition zeros :: "nat \<Rightarrow> nat \<Rightarrow> matrix" where
  "zeros n p = replicate n (replicate p 0)"

text \<open>
  The loop over \<^verbatim>\<open>x2.iterrows()\<close>: each row adds the outer product of its residual to
  \<open>sigma\<close>. \<^verbatim>\<open>self.means.loc[x.y]\<close> raises for a row whose label is NaN.
\<close>

fun sigma_loop :: "('a \<times> vec) list \<Rightarrow> matrix \<Rightarrow> (vec \<times> 'a option) list \<Rightarrow> matrix result" where
  "sigma_loop mus acc [] = Return acc"
| "sigma_loop mus acc ((x, None) # rows) = Raise KeyError"
| "sigma_loop mus acc ((x, Some y) # rows) =
     rbind (loc mus y) (\<lambda>mu.
       let xv = vec_sub x mu in sigma_loop mus (mat_add acc (outer xv xv)) rows)"

text \<open>
  \<^verbatim>\<open>np.log(self.probabilities) - 0.5 * quad\<close>, for the series \<open>quad\<close> of the values
  \<open>qs\<close> indexed by \<open>idx\<close>: the two series are matched by label, and a class without an
  entry in \<open>quad\<close> gets NaN.
\<close>

definition log_minus_half ::
  "('a \<times> real) list \<Rightarrow> 'a list \<Rightarrow> vec \<Rightarrow> ('a \<times> real option) list" where
  "log_minus_half probs idx qs =
     map (\<lambda>(c, pr). (c, map_option (\<lambda>q. ln pr - 0.5 * q) (map_of (zip idx qs) c))) probs"

text \<open>
  \<^verbatim>\<open>LinearDiscriminantClassifier.__init__\<close>. \<^verbatim>\<open>self.sigma /= (n - k)\<close> is a division of
  floats, which raises nothing when \<open>n = k\<close>. With one row per class every residual is
  zero and \<open>sigma\<close> becomes an array of NaN; the routines that follow pass NaN on,
  \<^verbatim>\<open>np.linalg.inv\<close> included, except \<^verbatim>\<open>.sum(1)\<close>, which skips NaN and returns 0. So the
  constructor returns a classifier whose arrays are NaN. (With \<open>n = k\<close> and a residual
  that is not zero, which takes more labels than rows, \<open>sigma\<close> holds infinities.)
\<close>

definition lda_fit ::
  "(matrix \<Rightarrow> matrix option) \<Rightarrow> bool \<Rightarrow> nat \<Rightarrow> matrix \<Rightarrow> 'a::linorder list
     \<Rightarrow> 'a linear_discriminant_classifier result" where
  "lda_fit linalg_inv numeric p coords values =
     (let classes = sorted_set values;
          k = length classes;
          n = length coords;
          probs = probabilities values
      in rbind (means numeric p coords values) (\<lambda>mus.
         rbind (sigma_loop mus (zeros p p) (zip coords (row_labels n values))) (\<lambda>total.
         let mv = map snd mus;
             idx = map fst mus
         in if n = k \<and> p \<noteq> 0 then
              (if total = zeros p p
               then Return \<lparr>lda_classes = classes,
                      lda_probabilities = probs,
                      lda_means = mus,
                      sigma = AllNaN p p,
                      sigma_inv = AllNaN p p,
                      lda_constants = log_minus_half probs idx (map (\<lambda>c. 0) idx),
                      discrimination_matrix =
                        (if mus = [] then Finite (replicate p []) else AllNaN p (length mus))\<rparr>
               else NaN)
            else
              let sg = map (map (\<lambda>x. x / (real n - real k))) total in
              case linalg_inv sg of
                None \<Rightarrow> Raise LinAlgError
              | Some sg_inv \<Rightarrow>
                  let d = np_dot (length mus) sg_inv (np_transpose p mv);
                      quad = mul_sum1 mv (np_transpose (length mus) d)
                  in Return \<lparr>lda_classes = classes,
                       lda_probabilities = probs,
                       lda_means = mus,
                       sigma = Finite sg,
                       sigma_inv = Finite sg_inv,
                       lda_constants = log_minus_half probs idx quad,
                       discrimination_matrix = Finite d\<rparr>)))"

text \<open>
  The array \<^verbatim>\<open>np.cov(m, rowvar=0, ddof=1)\<close> returns for a frame \<open>m\<close> of \<open>p\<close> columns:
  a matrix, an array of NaN, or a 0-dimensional array.
\<close>

datatype cov_array = Array0 | ArrayNaN | Array2 matrix

text \<open>
  \<^verbatim>\<open>np.cov\<close> (numpy 1.x): a frame of a single row is read as one variable; the columns
  are centred once more; the divisor is the number of rows less \<open>ddof\<close>, replaced by zero
  (with a warning) when it is not positive; the result is squeezed, which leaves a
  0-dimensional array when there is one variable.
\<close>

definition np_cov :: "nat \<Rightarrow> matrix \<Rightarrow> cov_array" where
  "np_cov p m =
     (if length m = 1 then Array0
      else if p = 0 then Array2 []
      else if p = 1 then Array0
      else if length m = 0 then ArrayNaN
      else
        let avg = col_means p m;
            X = map (\<lambda>x. vec_sub x avg) m;
            fact = real (length m) - 1
        in Array2 (map (map (\<lambda>c. c / fact)) (np_dot p (np_transpose p X) X)))"

text \<open>
  One pass of the loop in \<^verbatim>\<open>QuadraticDiscriminantClassifier.__init__\<close>: covariance,
  inverse and determinant of one class. \<^verbatim>\<open>self.means.loc[cls]\<close> raises for a class that
  labels no row; \<^verbatim>\<open>np.linalg.inv\<close> raises on an array of fewer than two dimensions.
\<close>

definition qda_class_fit ::
  "(matrix \<Rightarrow> matrix option) \<Rightarrow> (matrix \<Rightarrow> real) \<Rightarrow> nat \<Rightarrow> matrix \<Rightarrow> 'a list
     \<Rightarrow> ('a \<times> vec) list \<Rightarrow> 'a \<Rightarrow> (matrix \<times> matrix \<times> real) result" where
  "qda_class_fit linalg_inv linalg_det p coords values mus cls =
     rbind (loc mus cls) (\<lambda>mu.
       case np_cov p (map (\<lambda>x. vec_sub x mu) (selected coords values cls)) of
         Array0 \<Rightarrow> Raise LinAlgError
       | ArrayNaN \<Rightarrow> NaN
       | Array2 cov \<Rightarrow>
           (case linalg_inv cov of
              None \<Rightarrow> Raise LinAlgError
            | Some cov_inv \<Rightarrow> Return (cov, cov_inv, linalg_det cov)))"

text \<open>
  \<^verbatim>\<open>QuadraticDiscriminantClassifier.__init__\<close>. The logarithm of a determinant that is
  not positive is no real number: the constant of that class is NaN or infinite.
\<close>

definition qda_fit ::
  "(matrix \<Rightarrow> matrix option) \<Rightarrow> (matrix \<Rightarrow> real) \<Rightarrow> bool \<Rightarrow> nat \<Rightarrow> matrix \<Rightarrow> 'a::linorder list
     \<Rightarrow> 'a quadratic_discriminant_classifier result" where
  "qda_fit linalg_inv linalg_det numeric p coords values =
     (let classes = sorted_set values;
          k = length classes;
          probs = probabilities values
      in rbind (means numeric p coords values) (\<lambda>mus.
         rbind (traverse (qda_class_fit linalg_inv linalg_det p coords values mus) classes) (\<lambda>fits.
         Return \<lparr>qda_classes = classes,
           qda_probabilities = probs,
           qda_means = mus,
           covariance = zip classes (map fst fits),
           covariance_inv = zip classes (map (\<lambda>(cov, cov_inv, d). cov_inv) fits),
           covariance_det = zip classes (map (\<lambda>(cov, cov_inv, d). d) fits),
           qda_constants =
             map (\<lambda>j. (classes ! j,
                        let d = snd (snd (fits ! j))
                        in if 0 < d then Some (ln (snd (probs ! j)) - 0.5 * ln d) else None))
               [0..<k]\<rparr>)))"

section \<open>What the claims speak of\<close>

text \<open>
  The label \<open>l\<close> belongs to the first position of \<open>row\<close> that holds its maximum, the
  positions being labelled by \<open>cols\<close>.
\<close>

definition first_max_label :: "'a list \<Rightarrow> real list \<Rightarrow> 'a \<Rightarrow> bool" where
  "first_max_label cols row l =
     (\<exists>j < length cols. l = cols ! j \<and> (\<forall>a < length cols. row ! a \<le> row ! j)
        \<and> (\<forall>a < j. row ! a < row ! j))"

text \<open>
  Among the positions of \<open>row\<close> that hold its maximum, no label is below \<open>l\<close>.
\<close>

definition lowest_tied_class :: "'a::linorder list \<Rightarrow> real list \<Rightarrow> 'a \<Rightarrow> bool" where
  "lowest_tied_class cols row l =
     (\<forall>a < length cols. row ! a = Max (set row) \<longrightarrow> l \<le> cols ! a)"

text \<open>
  The pooled covariance in the words of the specification: the rows of a class, the mean
  of a feature over them, the residual of an observation against the mean of its own class,
  and the sum over all observations of the products of residuals, over \<open>n - k\<close>.
\<close>

definition class_rows :: "'a list \<Rightarrow> 'a \<Rightarrow> nat list" where
  "class_rows values c = filter (\<lambda>i. values ! i = c) [0..<length values]"

definition class_mean :: "matrix \<Rightarrow> 'a list \<Rightarrow> 'a \<Rightarrow> nat \<Rightarrow> real" where
  "class_mean coords values c a =
     sum_list (map (\<lambda>i. coords ! i ! a) (class_rows values c)) / real (length (class_rows values c))"

definition residual :: "matrix \<Rightarrow> 'a list \<Rightarrow> nat \<Rightarrow> nat \<Rightarrow> real" where
  "residual coords values i a = coords ! i ! a - class_mean coords values (values ! i) a"

definition pooled_covariance :: "nat \<Rightarrow> matrix \<Rightarrow> 'a list \<Rightarrow> matrix" where
  "pooled_covariance p coords values =
     map (\<lambda>a. map (\<lambda>b.
           sum_list (map (\<lambda>i. residual coords values i a * residual coords values i b)
                      [0..<length coords])
           / (real (length coords) - real (card (set values)))) [0..<p]) [0..<p]"

text \<open>
  The covariance of one class in the words of the specification: over the rows of that
  class only, with divisor the number of its rows less one.
\<close>

definition class_covariance :: "nat \<Rightarrow> matrix \<Rightarrow> 'a list \<Rightarrow> 'a \<Rightarrow> matrix" where
  "class_covariance p coords values c =
     map (\<lambda>a. map (\<lambda>b.
           sum_list (map (\<lambda>i. residual coords values i a * residual coords values i b)
                      (class_rows values c))
           / (real (length (class_rows values c)) - 1)) [0..<p]) [0..<p]"

section \<open>Worked examples\<close>

text \<open>
  Closed forms of determinant and inverse for 2 by 2 matrices, to run the constructors on
  an example: two classes of three points each in the plane, with the same covariance.
\<close>

definition det2 :: "matrix \<Rightarrow> real" where
  "det2 A = A ! 0 ! 0 * A ! 1 ! 1 - A ! 0 ! 1 * A ! 1 ! 0"

definition inv2 :: "matrix \<Rightarrow> matrix option" where
  "inv2 A =
     (if length A = 2 \<and> list_all (\<lambda>r. length r = 2) A \<and> det2 A \<noteq> 0
      then Some [[A ! 1 ! 1 / det2 A, - (A ! 0 ! 1) / det2 A],
                 [- (A ! 1 ! 0) / det2 A, A ! 0 ! 0 / det2 A]]
      else None)"

definition X0 :: matrix where "X0 = [[0, 0], [1, 0], [0, 1], [4, 4], [5, 4], [4, 5]]"
definition y0 :: "int list" where "y0 = [0, 0, 0, 1, 1, 1]"

definition ls0 :: "int least_squares_classifier" where
  "ls0 = \<lparr>ls_classes = [0, 1], betahat = [[1 / 114, 13 / 114], [1 / 114, 13 / 114]]\<rparr>"

definition lda0 :: "int linear_discriminant_classifier" where
  "lda0 = \<lparr>lda_classes = [0, 1],
            lda_probabilities = [(0, 1 / 2), (1, 1 / 2)],
            lda_means = [(0, [1 / 3, 1 / 3]), (1, [13 / 3, 13 / 3])],
            sigma = Finite [[1 / 3, - (1 / 6)], [- (1 / 6), 1 / 3]],
            sigma_inv = Finite [[4, 2], [2, 4]],
            lda_constants = [(0, Some (ln (1 / 2) - 2 / 3)), (1, Some (ln (1 / 2) - 338 / 3))],
            discrimination_matrix = Finite [[2, 26], [2, 26]]\<rparr>"

definition qda0 :: "int quadratic_discriminant_classifier" where
  "qda0 = \<lparr>qda_classes = [0, 1],
            qda_probabilities = [(0, 1 / 2), (1, 1 / 2)],
            qda_means = [(0, [1 / 3, 1 / 3]), (1, [13 / 3, 13 / 3])],
            covariance = [(0, [[1 / 3, - (1 / 6)], [- (1 / 6), 1 / 3]]),
                          (1, [[1 / 3, - (1 / 6)], [- (1 / 6), 1 / 3]])],
            covariance_inv = [(0, [[4, 2], [2, 4]]), (1, [[4, 2], [2, 4]])],
            covariance_det = [(0, 1 / 12), (1, 1 / 12)],
            qda_constants = [(0, Some (ln (1 / 2) - 0.5 * ln (1 / 12))),
                             (1, Some (ln (1 / 2) - 0.5 * ln (1 / 12)))]\<rparr>"

text \<open>Three rows to classify: the origin, a point near the second class, the midpoint of the means.\<close>

definition S0 :: matrix where "S0 = [[0, 0], [5, 5], [7 / 3, 7 / 3]]"


text \<open>A single class on a line: its covariance has no inverse.\<close>

definition X1 :: matrix where "X1 = [[0, 0], [1, 0], [2, 0]]"

text \<open>Two classes in the plane, the first with a single observation.\<close>

definition X3 :: matrix where "X3 = [[0, 0], [5, 5], [6, 6], [7, 9]]"
definition y3 :: "int list" where "y3 = [0, 1, 1, 1]"

text \<open>
  One observation per class: the classifier the linear discriminant constructor returns
  for the rows \<open>(0, 0)\<close> and \<open>(1, 1)\<close> with the labels 0 and 1.
\<close>

definition X2 :: matrix where "X2 = [[0, 0], [1, 1]]"
definition y2 :: "int list" where "y2 = [0, 1]"

definition lda2 :: "int linear_discriminant_classifier" where
  "lda2 = \<lparr>lda_classes = [0, 1],
            lda_probabilities = [(0, 1 / 2), (1, 1 / 2)],
            lda_means = [(0, [0, 0]), (1, [1, 1])],
            sigma = AllNaN 2 2,
            sigma_inv = AllNaN 2 2,
            lda_constants = [(0, Some (ln (1 / 2))), (1, Some (ln (1 / 2)))],
            discrimination_matrix = AllNaN 2 2\<rparr>"

text \<open>
  \<^verbatim>\<open>np.linalg.inv\<close> and \<^verbatim>\<open>np.linalg.det\<close> as LAPACK computes them for a 2 by 2 matrix in
  float64 arithmetic: elimination with partial pivoting, the multiplier being the product
  with the reciprocal of the pivot; the routine reports a singular matrix only when a
  pivot is exactly zero. The inverse solves for the columns of the identity by forward and
  back substitution; the determinant is the signed product of the pivots.
\<close>

definition lapack_getrf2 :: "matrix \<Rightarrow> (bool \<times> real \<times> real \<times> real \<times> real) option" where
  "lapack_getrf2 A =
     (let swap = \<bar>A ! 0 ! 0\<bar> < \<bar>A ! 1 ! 0\<bar>;
          r1 = (if swap then A ! 1 else A ! 0);
          r2 = (if swap then A ! 0 else A ! 1)
      in if r1 ! 0 = 0 then None
         else
           let l = float64 (r2 ! 0 * float64 (1 / r1 ! 0));
               u22 = float64 (r2 ! 1 - float64 (l * r1 ! 1))
           in if u22 = 0 then None else Some (swap, r1 ! 0, r1 ! 1, l, u22))"

definition lapack_solve2 :: "real \<times> real \<times> real \<times> real \<Rightarrow> real \<times> real \<Rightarrow> real \<times> real" where
  "lapack_solve2 lu b =
     (case lu of (u11, u12, l, u22) \<Rightarrow>
        let y2 = float64 (snd b - float64 (l * fst b));
            x2 = float64 (y2 / u22);
            x1 = float64 (float64 (fst b - float64 (u12 * x2)) / u11)
        in (x1, x2))"

definition lapack_inv2 :: "matrix \<Rightarrow> matrix option" where
  "lapack_inv2 A =
     (if length A = 2 \<and> list_all (\<lambda>r. length r = 2) A
      then case lapack_getrf2 A of
             None \<Rightarrow> None
           | Some (swap, lu) \<Rightarrow>
               let c1 = lapack_solve2 lu (if swap then (0, 1) else (1, 0));
                   c2 = lapack_solve2 lu (if swap then (1, 0) else (0, 1))
               in Some [[fst c1, fst c2], [snd c1, snd c2]]
      else None)"

definition lapack_det2 :: "matrix \<Rightarrow> real" where
  "lapack_det2 A =
     (case lapack_getrf2 A of
        None \<Rightarrow> 0
      | Some (swap, u11, u12, l, u22) \<Rightarrow>
          float64 (float64 ((if swap then - 1 else 1) * u11) * u22))"

text \<open>
  One class of two observations in the plane: its covariance has the four entries
  \<open>24.5\<close>. One class of three observations on a line: the pooled covariance has the four
  entries \<open>49\<close>. Neither matrix has an inverse.
\<close>

definition X4 :: matrix where "X4 = [[0, 0], [7, 7]]"
definition y4 :: "int list" where "y4 = [0, 0]"

definition X5 :: matrix where "X5 = [[0, 0], [7, 7], [14, 14]]"
definition y5 :: "int list" where "y5 = [0, 0, 0]"

text \<open>Six classes of two observations each.\<close>

definition y6 :: "int list" where "y6 = [0, 0, 1, 1, 2, 2, 3, 3, 4, 4, 5, 5]"

text \<open>The outcome of a call, with one field of what it returns.\<close>

definition field :: "('a \<Rightarrow> 'b) \<Rightarrow> 'a result \<Rightarrow> 'b result" where
  "field f r = rbind r (\<lambda>x. Return (f x))"

section \<open>Properties of the indicator matrix\<close>

lemma set_column_fresh: "cls \<notin> fst ` set y \<Longrightarrow> set_column y cls col = y @ [(cls, col)]"
  by (induction y) auto

lemma foldl_set_column:
  "distinct cs \<Longrightarrow> set cs \<inter> fst ` set y = {} \<Longrightarrow>
   foldl (\<lambda>y cls. set_column y cls (f cls)) y cs = y @ map (\<lambda>c. (c, f c)) cs"
proof (induction cs arbitrary: y)
  case Nil
  then show ?case by simp
next
  case (Cons c cs)
  have fresh: "c \<notin> fst ` set y" using Cons.prems(2) by auto
  have "set cs \<inter> fst ` set (y @ [(c, f c)]) = {}"
    using Cons.prems by auto
  with Cons.IH [of "y @ [(c, f c)]"] Cons.prems(1) fresh show ?case
    by (simp add: set_column_fresh)
qed

lemma sorted_set_props:
  "sorted (sorted_set values)" "distinct (sorted_set values)" "set (sorted_set values) = set values"
  "length (sorted_set values) = card (set values)"
  by (simp_all add: sorted_set_def length_remdups_card_conv)

lemma indicator_matrix_eq:
  "indicator_matrix values =
     Return (map (\<lambda>c. (c, map (\<lambda>v. of_bool (v = c)) values)) (sorted_set values))"
  using foldl_set_column [of "sorted_set values" "[]" "\<lambda>cls. map (\<lambda>v. v = cls) values"]
  by (simp add: indicator_matrix_def astype_int_def sorted_set_props o_def)

lemma sum_list_of_bool_distinct:
  "distinct cs \<Longrightarrow> sum_list (map (\<lambda>c. of_bool (x = c)) cs) = (of_bool (x \<in> set cs) :: int)"
  by (induction cs) auto

text \<open>
  Claim C2. For a label vector of length \<open>n\<close> with \<open>k\<close> distinct labels,
  \<^verbatim>\<open>indicator_matrix\<close> returns a frame of \<open>k\<close> columns of length \<open>n\<close>, labelled by the
  distinct labels in ascending order; every entry is 0 or 1, the entry of row \<open>i\<close> in
  column \<open>j\<close> is 1 exactly when the label of observation \<open>i\<close> is the \<open>j\<close>-th class, and
  every row sums to 1.
\<close>

theorem indicator_matrix_correct:
  "\<exists>M. indicator_matrix values = Return M
       \<and> map fst M = sorted_set values
       \<and> sorted (sorted_set values) \<and> distinct (sorted_set values)
       \<and> set (sorted_set values) = set values
       \<and> length M = card (set values)
       \<and> (\<forall>j < card (set values). length (snd (M ! j)) = length values)
       \<and> (\<forall>i < length values. \<forall>j < card (set values).
             cell M i j \<in> {0, 1} \<and> (cell M i j = 1 \<longleftrightarrow> values ! i = sorted_set values ! j))
       \<and> (\<forall>i < length values. (\<Sum>j < card (set values). cell M i j) = 1)"
proof -
  let ?cs = "sorted_set values"
  define M where "M = map (\<lambda>c. (c, map (\<lambda>v. of_bool (v = c) :: int) values)) ?cs"
  have ret: "indicator_matrix values = Return M"
    by (simp add: indicator_matrix_eq M_def)
  have k: "length ?cs = card (set values)" by (rule sorted_set_props)
  have cols: "map fst M = ?cs"
    by (simp add: M_def o_def)
  have len: "length M = card (set values)"
    by (simp add: M_def k)
  have col: "snd (M ! j) = map (\<lambda>v. of_bool (v = ?cs ! j)) values" if "j < card (set values)" for j
    using that by (simp add: M_def k)
  have entry: "cell M i j = of_bool (values ! i = ?cs ! j)"
    if "i < length values" "j < card (set values)" for i j
    using that by (simp add: cell_def col)
  have rowsum: "(\<Sum>j < card (set values). cell M i j) = 1" if i: "i < length values" for i
  proof -
    have "(\<Sum>j < card (set values). cell M i j)
        = (\<Sum>j < length ?cs. of_bool (values ! i = ?cs ! j))"
      using entry [OF i] by (simp add: k)
    also have "\<dots> = sum_list (map (\<lambda>c. of_bool (values ! i = c)) ?cs)"
      by (simp add: sum_list_sum_nth atLeast0LessThan)
    also have "\<dots> = of_bool (values ! i \<in> set ?cs)"
      by (rule sum_list_of_bool_distinct) (rule sorted_set_props)
    also have "\<dots> = 1" using i by (simp add: sorted_set_props)
    finally show ?thesis .
  qed
  show ?thesis
    using ret cols len col entry rowsum by (simp add: sorted_set_props)
qed

theorem indicator_matrix_correct_witness:
  "indicator_matrix [3, 2, 3 :: nat] = Return [(2, [0, 1, 0]), (3, [1, 0, 1])]
   \<and> (1::nat) < length [3, 2, 3 :: nat] \<and> (0::nat) < card (set [3, 2, 3 :: nat])
   \<and> cell [(2::nat, [0, 1, 0 :: int]), (3, [1, 0, 1])] 1 0 = 1
   \<and> (\<Sum>j < card (set [3, 2, 3 :: nat]). cell [(2::nat, [0, 1, 0 :: int]), (3, [1, 0, 1])] 1 j) = 1"
proof -
  have c: "card (set [3, 2, 3 :: nat]) = 2" by code_simp
  have s: "sorted_set [3, 2, 3 :: nat] = [2, 3]" by code_simp
  have m: "indicator_matrix [3, 2, 3 :: nat] = Return [(2, [0, 1, 0]), (3, [1, 0, 1])]"
    by code_simp
  from indicator_matrix_correct [of "[3, 2, 3 :: nat]"]
  obtain M where M: "indicator_matrix [3, 2, 3 :: nat] = Return M"
    and e: "\<forall>i < length [3, 2, 3 :: nat]. \<forall>j < card (set [3, 2, 3 :: nat]).
             cell M i j \<in> {0, 1} \<and> (cell M i j = 1 \<longleftrightarrow> [3, 2, 3 :: nat] ! i = sorted_set [3, 2, 3 :: nat] ! j)"
    and r: "\<forall>i < length [3, 2, 3 :: nat]. (\<Sum>j < card (set [3, 2, 3 :: nat]). cell M i j) = 1"
    by blast
  from M m have Meq: "M = [(2, [0, 1, 0]), (3, [1, 0, 1])]" by simp
  from e have "cell M 1 0 = 1" unfolding c s by simp
  moreover from r have "(\<Sum>j < card (set [3, 2, 3 :: nat]). cell M 1 j) = 1" by simp
  ultimately show ?thesis using m c unfolding Meq by simp
qed

text \<open>
  Claim C7 (as amended). \<^verbatim>\<open>indicator_matrix\<close> has no failing input: on every label vector
  it returns a frame with one column per distinct label, and that frame is empty exactly
  when the label vector is. The result is a value of the argument alone.
\<close>

theorem indicator_matrix_never_raises:
  "\<exists>M. indicator_matrix values = Return M \<and> length M = card (set values)
      \<and> (M = []) = (values = [])"
proof -
  have "(sorted_set values = []) = (values = [])"
    using sorted_set_props(3) [of "values"] by (metis set_empty)
  then show ?thesis
    by (simp add: indicator_matrix_eq sorted_set_props)
qed

text \<open>
  On the empty label vector the function returns the empty frame: no error is raised.
\<close>

theorem indicator_matrix_empty_counterexample:
  "indicator_matrix ([] :: nat list) = Return []"
  by (simp add: indicator_matrix_def sorted_set_def astype_int_def)

section \<open>Loops and argmax\<close>

lemma traverse_Return:
  "traverse f xs = Return ys \<Longrightarrow> length ys = length xs \<and> (\<forall>i < length xs. f (xs ! i) = Return (ys ! i))"
proof (induction xs arbitrary: ys)
  case Nil
  then show ?case by simp
next
  case (Cons x xs)
  from Cons.prems obtain y ys' where y: "f x = Return y" and ys': "traverse f xs = Return ys'"
    and eq: "ys = y # ys'"
    by (auto split: result.splits)
  from Cons.IH [OF ys'] y eq show ?case
    by (auto simp: nth_Cons split: nat.splits)
qed

lemma traverse_returns:
  "(\<And>x. x \<in> set xs \<Longrightarrow> \<exists>y. f x = Return y) \<Longrightarrow> \<exists>ys. traverse f xs = Return ys"
proof (induction xs)
  case Nil
  then show ?case by simp
next
  case (Cons x xs)
  from Cons.prems [of x] obtain y where "f x = Return y" by auto
  moreover from Cons obtain ys where "traverse f xs = Return ys" by auto
  ultimately show ?case by simp
qed

lemma argmax_scan_first_max:
  "best < length pre \<Longrightarrow> pre ! best = bv \<Longrightarrow> i = length pre \<Longrightarrow>
   (\<forall>a < length pre. pre ! a \<le> bv) \<Longrightarrow> (\<forall>a < best. pre ! a < bv) \<Longrightarrow>
   argmax_scan best bv i xs < length (pre @ xs)
   \<and> (\<forall>a < length (pre @ xs). (pre @ xs) ! a \<le> (pre @ xs) ! argmax_scan best bv i xs)
   \<and> (\<forall>a < argmax_scan best bv i xs. (pre @ xs) ! a < (pre @ xs) ! argmax_scan best bv i xs)"
proof (induction xs arbitrary: best bv i pre)
  case Nil
  then show ?case by simp
next
  case (Cons x xs)
  show ?case
  proof (cases "bv < x")
    case True
    have "argmax_scan i x (Suc i) xs < length ((pre @ [x]) @ xs)
      \<and> (\<forall>a < length ((pre @ [x]) @ xs). ((pre @ [x]) @ xs) ! a \<le> ((pre @ [x]) @ xs) ! argmax_scan i x (Suc i) xs)
      \<and> (\<forall>a < argmax_scan i x (Suc i) xs. ((pre @ [x]) @ xs) ! a < ((pre @ [x]) @ xs) ! argmax_scan i x (Suc i) xs)"
    proof (rule Cons.IH)
      show "i < length (pre @ [x])" using Cons.prems by simp
      show "(pre @ [x]) ! i = x" using Cons.prems by simp
      show "Suc i = length (pre @ [x])" using Cons.prems by simp
      show "\<forall>a < length (pre @ [x]). (pre @ [x]) ! a \<le> x"
        using Cons.prems True by (auto simp: nth_append less_Suc_eq dest: order_trans)
      show "\<forall>a < i. (pre @ [x]) ! a < x"
        using Cons.prems True by (auto simp: nth_append)
    qed
    with True show ?thesis by simp
  next
    case False
    have "argmax_scan best bv (Suc i) xs < length ((pre @ [x]) @ xs)
      \<and> (\<forall>a < length ((pre @ [x]) @ xs). ((pre @ [x]) @ xs) ! a \<le> ((pre @ [x]) @ xs) ! argmax_scan best bv (Suc i) xs)
      \<and> (\<forall>a < argmax_scan best bv (Suc i) xs. ((pre @ [x]) @ xs) ! a < ((pre @ [x]) @ xs) ! argmax_scan best bv (Suc i) xs)"
    proof (rule Cons.IH)
      show "best < length (pre @ [x])" using Cons.prems by simp
      show "(pre @ [x]) ! best = bv" using Cons.prems by (simp add: nth_append)
      show "Suc i = length (pre @ [x])" using Cons.prems by simp
      show "\<forall>a < length (pre @ [x]). (pre @ [x]) ! a \<le> bv"
        using Cons.prems False by (auto simp: nth_append less_Suc_eq)
      show "\<forall>a < best. (pre @ [x]) ! a < bv"
        using Cons.prems by (auto simp: nth_append)
    qed
    with False show ?thesis by simp
  qed
qed

lemma argmax_first_max:
  assumes "row \<noteq> []"
  shows "argmax row < length row"
    and "\<And>a. a < length row \<Longrightarrow> row ! a \<le> row ! argmax row"
    and "\<And>a. a < argmax row \<Longrightarrow> row ! a < row ! argmax row"
proof -
  from assms obtain x xs where row: "row = x # xs" by (cases row) auto
  have "argmax_scan 0 x 1 xs < length ([x] @ xs)
   \<and> (\<forall>a < length ([x] @ xs). ([x] @ xs) ! a \<le> ([x] @ xs) ! argmax_scan 0 x 1 xs)
   \<and> (\<forall>a < argmax_scan 0 x 1 xs. ([x] @ xs) ! a < ([x] @ xs) ! argmax_scan 0 x 1 xs)"
    by (rule argmax_scan_first_max) simp_all
  then show "argmax row < length row"
    and "\<And>a. a < length row \<Longrightarrow> row ! a \<le> row ! argmax row"
    and "\<And>a. a < argmax row \<Longrightarrow> row ! a < row ! argmax row"
    by (simp_all add: row argmax_def)
qed

lemma idxmax_first_max:
  "idxmax cols row = Return l \<Longrightarrow> length row = length cols \<Longrightarrow> first_max_label cols row l"
  unfolding first_max_label_def idxmax_def
  using argmax_first_max [of row]
  by (auto split: if_splits intro!: exI [of _ "argmax row"])

lemma apply_idxmax_first_max:
  assumes "apply_idxmax cols S = Return labels" "list_all (\<lambda>r. length r = length cols) S"
  shows "length labels = length S" and "\<And>i. i < length S \<Longrightarrow> first_max_label cols (S ! i) (labels ! i)"
proof -
  from assms(1) have t: "length labels = length S" "\<And>i. i < length S \<Longrightarrow> idxmax cols (S ! i) = Return (labels ! i)"
    using traverse_Return [of "idxmax cols" S labels] by (simp_all add: apply_idxmax_def)
  show "length labels = length S" by (rule t)
  fix i assume i: "i < length S"
  with assms(2) have "length (S ! i) = length cols" by (simp add: list_all_length)
  with t(2) [OF i] show "first_max_label cols (S ! i) (labels ! i)" by (rule idxmax_first_max)
qed

lemma apply_idxmax_returns:
  assumes "list_all (\<lambda>r. r \<noteq> []) S"
  shows "\<exists>labels. apply_idxmax cols S = Return labels"
  unfolding apply_idxmax_def
  by (rule traverse_returns) (use assms in \<open>auto simp: idxmax_def list_all_iff\<close>)

lemma first_max_label_mem: "first_max_label cols row l \<Longrightarrow> l \<in> set cols"
  by (auto simp: first_max_label_def)

lemma first_max_label_sorted:
  assumes "first_max_label cols row l" "sorted cols" "a < length cols" "row ! a = Max (set row)" "length row = length cols"
  shows "l \<le> cols ! a"
proof -
  from assms(1) obtain j where j: "j < length cols" "l = cols ! j" "\<forall>a < length cols. row ! a \<le> row ! j"
    "\<forall>a < j. row ! a < row ! j" by (auto simp: first_max_label_def)
  have "row ! j \<le> Max (set row)" using j(1) assms(5) by simp
  then have "\<not> row ! a < row ! j" using assms(4) by simp
  with j(4) have "j \<le> a" by (meson not_le_imp_less)
  with assms(2,3) j(2) show ?thesis by (simp add: sorted_nth_mono)
qed

lemma ls_scores_shape:
  "ls_scores m samples = Return S \<Longrightarrow>
   length S = length samples \<and> list_all (\<lambda>r. length r = length (ls_classes m)) S"
  by (auto simp: ls_scores_def np_dot_def list_all_iff split: if_splits)

lemma lda_scores_shape:
  "lda_scores m samples = Return S \<Longrightarrow>
   length S = length samples \<and> list_all (\<lambda>r. length r = length (lda_classes m)) S"
  by (auto simp: lda_scores_def add_series_def np_dot_def list_all_iff
           split: if_splits ndarray.splits)

lemma qda_scores_shape:
  assumes "qda_scores m samples = Return S"
  shows "length S = length samples \<and> list_all (\<lambda>r. length r = length (qda_classes m)) S"
proof -
  from assms obtain columns where c: "traverse (qda_column m samples) (qda_classes m) = Return columns"
    and S: "S = np_transpose (length samples) columns"
    by (auto simp: qda_scores_def rbind_def split: result.splits if_splits)
  from traverse_Return [OF c] have "length columns = length (qda_classes m)" by simp
  then show ?thesis by (simp add: S np_transpose_def column_def list_all_iff)
qed

lemma classify_first_max:
  assumes "rbind sc (apply_idxmax cols) = Return labels"
    and "\<And>S. sc = Return S \<Longrightarrow> length S = n \<and> list_all (\<lambda>r. length r = length cols) S"
  shows "\<exists>S. sc = Return S \<and> length labels = n
           \<and> (\<forall>i < n. first_max_label cols (S ! i) (labels ! i))"
proof -
  from assms(1) obtain S where S: "sc = Return S" and a: "apply_idxmax cols S = Return labels"
    by (auto simp: rbind_def split: result.splits)
  from assms(2) [OF S] have sh: "length S = n" "list_all (\<lambda>r. length r = length cols) S" by auto
  from apply_idxmax_first_max [OF a sh(2)] sh(1) S show ?thesis by auto
qed

lemma ls_classify_first_max:
  "ls_classify m samples = Return labels \<Longrightarrow>
   \<exists>S. ls_scores m samples = Return S \<and> length labels = length samples
     \<and> (\<forall>i < length samples. first_max_label (ls_classes m) (S ! i) (labels ! i))"
  unfolding ls_classify_def by (rule classify_first_max) (auto dest: ls_scores_shape)

lemma lda_classify_first_max:
  "lda_classify m samples = Return labels \<Longrightarrow>
   \<exists>S. lda_scores m samples = Return S \<and> length labels = length samples
     \<and> (\<forall>i < length samples. first_max_label (lda_classes m) (S ! i) (labels ! i))"
  unfolding lda_classify_def by (rule classify_first_max) (auto dest: lda_scores_shape)

lemma qda_classify_first_max:
  "qda_classify m samples = Return labels \<Longrightarrow>
   \<exists>S. qda_scores m samples = Return S \<and> length labels = length samples
     \<and> (\<forall>i < length samples. first_max_label (qda_classes m) (S ! i) (labels ! i))"
  unfolding qda_classify_def by (rule classify_first_max) (auto dest: qda_scores_shape)

lemma first_max_labels_subset:
  assumes "length labels = n" "\<forall>i < n. first_max_label cols (S ! i) (labels ! i)"
  shows "set labels \<subseteq> set cols"
proof
  fix l assume "l \<in> set labels"
  then obtain i where "i < length labels" "labels ! i = l" by (auto simp: in_set_conv_nth)
  with assms show "l \<in> set cols" by (auto dest: first_max_label_mem)
qed

lemma ls_fit_classes: "ls_fit linalg_inv p coords values = Return m \<Longrightarrow> ls_classes m = sorted_set values"
  by (auto simp: ls_fit_def Let_def rbind_def indicator_matrix_def split: option.splits if_splits)

lemma lda_fit_classes:
  "lda_fit linalg_inv numeric p coords values = Return m \<Longrightarrow> lda_classes m = sorted_set values"
  by (auto simp: lda_fit_def Let_def rbind_def split: option.splits if_splits result.splits)

lemma qda_fit_classes:
  "qda_fit linalg_inv linalg_det numeric p coords values = Return m \<Longrightarrow>
   qda_classes m = sorted_set values"
  by (auto simp: qda_fit_def Let_def rbind_def split: option.splits if_splits result.splits)

lemma first_max_lowest_tied:
  assumes "first_max_label cols row l" "sorted cols" "length row = length cols"
  shows "lowest_tied_class cols row l"
  unfolding lowest_tied_class_def
  using first_max_label_sorted [OF assms(1,2) _ _ assms(3)] by blast

lemma fit_classes_sorted:
  "ls_fit linalg_inv p coords values = Return m1 \<Longrightarrow> sorted (ls_classes m1)"
  "lda_fit linalg_inv numeric p coords values = Return m2 \<Longrightarrow> sorted (lda_classes m2)"
  "qda_fit linalg_inv linalg_det numeric p coords values = Return m3 \<Longrightarrow> sorted (qda_classes m3)"
  by (simp_all add: ls_fit_classes lda_fit_classes qda_fit_classes sorted_set_def)

lemma tie_break_generic:
  assumes "\<exists>S. sc = Return S \<and> length labels = n \<and> (\<forall>i < n. first_max_label cols (S ! i) (labels ! i))"
    and "\<And>S. sc = Return S \<Longrightarrow> length S = n \<and> list_all (\<lambda>r. length r = length cols) S"
  shows "\<exists>S. sc = Return S
          \<and> (\<forall>i < n. first_max_label cols (S ! i) (labels ! i)
                \<and> (sorted cols \<longrightarrow> lowest_tied_class cols (S ! i) (labels ! i)))"
proof -
  from assms(1) obtain S where S: "sc = Return S"
    and f: "\<forall>i < n. first_max_label cols (S ! i) (labels ! i)" by blast
  from assms(2) [OF S] have sh: "length S = n" "list_all (\<lambda>r. length r = length cols) S" by auto
  have "lowest_tied_class cols (S ! i) (labels ! i)" if "i < n" "sorted cols" for i
  proof (rule first_max_lowest_tied)
    show "first_max_label cols (S ! i) (labels ! i)" using f that by simp
    show "sorted cols" by fact
    show "length (S ! i) = length cols" using sh that by (simp add: list_all_length)
  qed
  with S f show ?thesis by blast
qed

section \<open>The examples, evaluated\<close>

lemma ls_fit_example: "ls_fit inv2 2 X0 y0 = Return ls0"
  by code_simp

lemma example_parts:
  "sorted_set y0 = [0, 1]"
  "length y0 = 6" "length X0 = 6"
  "probabilities y0 = [(0, 1 / 2), (1, 1 / 2)]"
  "means True 2 X0 y0 = Return [(0, [1 / 3, 1 / 3]), (1, [13 / 3, 13 / 3])]"
  "sigma_loop [(0, [1 / 3, 1 / 3]), (1, [13 / 3, 13 / 3])] (zeros 2 2) (zip X0 (row_labels 6 y0))
     = Return [[4 / 3, - (2 / 3)], [- (2 / 3), 4 / 3]]"
  "inv2 [[1 / 3, - (1 / 6)], [- (1 / 6), 1 / 3]] = Some [[4, 2], [2, 4]]"
  "det2 [[1 / 3, - (1 / 6)], [- (1 / 6), 1 / 3]] = 1 / 12"
  "np_dot 2 [[4, 2], [2, 4]] (np_transpose 2 [[1 / 3, 1 / 3], [13 / 3, 13 / 3]]) = [[2, 26], [2, 26]]"
  "mul_sum1 [[1 / 3, 1 / 3], [13 / 3, 13 / 3]] (np_transpose 2 [[2, 26], [2, 26]]) = [4 / 3, 676 / 3]"
  "np_cov 2 (map (\<lambda>x. vec_sub x [1 / 3, 1 / 3]) (selected X0 y0 0))
     = Array2 [[1 / 3, - (1 / 6)], [- (1 / 6), 1 / 3]]"
  "np_cov 2 (map (\<lambda>x. vec_sub x [13 / 3, 13 / 3]) (selected X0 y0 1))
     = Array2 [[1 / 3, - (1 / 6)], [- (1 / 6), 1 / 3]]"
  by code_simp+

lemma upt_2: "[0..<2] = [0, Suc 0]"
  by (simp add: upt_rec)

lemmas array_eval = np_dot_def np_transpose_def column_def dot_def mul_sum1_def upt_2

lemma lda_fit_example: "lda_fit inv2 True 2 X0 y0 = Return lda0"
  by (simp add: lda_fit_def example_parts rbind_def lda0_def log_minus_half_def array_eval)

lemma qda_fit_example: "qda_fit inv2 det2 True 2 X0 y0 = Return qda0"
  by (simp add: qda_fit_def qda_class_fit_def example_parts rbind_def loc_def qda0_def)

lemma ls_classify_example: "ls_classify ls0 S0 = Return [0, 1, 1]"
  by code_simp

lemma ls_scores_example: "ls_scores ls0 S0 = Return [[0, 0], [5 / 57, 65 / 57], [7 / 171, 91 / 171]]"
  by code_simp

lemma lda_scores_example:
  "lda_scores lda0 S0 = Return [[ln (1 / 2) - 2 / 3, ln (1 / 2) - 338 / 3],
                                [ln (1 / 2) + 58 / 3, ln (1 / 2) + 442 / 3],
                                [ln (1 / 2) + 26 / 3, ln (1 / 2) + 26 / 3]]"
  by (simp add: lda_scores_def lda0_def S0_def add_series_def array_eval)

lemma example_classes:
  "ls_classes ls0 = [0, 1]" "lda_classes lda0 = [0, 1]" "qda_classes qda0 = [0, 1]"
  "lda_classes lda2 = [0, 1]"
  by (simp_all add: ls0_def lda0_def qda0_def lda2_def)

lemma lda_classify_example: "lda_classify lda0 S0 = Return [0, 1, 0]"
  by (simp add: lda_classify_def lda_scores_example rbind_def example_classes
        apply_idxmax_def idxmax_def argmax_def)

lemma qda_scores_example:
  "qda_scores qda0 S0 = Return [[ln (1 / 2) - 0.5 * ln (1 / 12) - 2 / 3, ln (1 / 2) - 0.5 * ln (1 / 12) - 338 / 3],
                                [ln (1 / 2) - 0.5 * ln (1 / 12) - 392 / 3, ln (1 / 2) - 0.5 * ln (1 / 12) - 8 / 3],
                                [ln (1 / 2) - 0.5 * ln (1 / 12) - 24, ln (1 / 2) - 0.5 * ln (1 / 12) - 24]]"
  by (simp add: qda_scores_def qda_column_def qda0_def S0_def rbind_def loc_def vec_sub_def array_eval
       upt_rec [of 0 3] upt_rec [of 1 3] upt_rec [of 2 3])

lemma qda_classify_example: "qda_classify qda0 S0 = Return [0, 1, 0]"
  by (simp add: qda_classify_def qda_scores_example rbind_def example_classes
        apply_idxmax_def idxmax_def argmax_def)

text \<open>One observation per class.\<close>

lemma lda_fit_one_row_per_class: "lda_fit linalg_inv True 2 X2 y2 = Return lda2"
proof -
  have "sorted_set y2 = [0, 1]" "length X2 = 2"
    "probabilities y2 = [(0, 1 / 2), (1, 1 / 2)]"
    "means True 2 X2 y2 = Return [(0, [0, 0]), (1, [1, 1])]"
    "sigma_loop [(0, [0, 0]), (1, [1, 1])] (zeros 2 2) (zip X2 (row_labels 2 y2))
       = Return (zeros 2 2)"
    by code_simp+
  then show ?thesis
    by (simp add: lda_fit_def rbind_def lda2_def log_minus_half_def)
qed

lemma lda_scores_nan: "lda_scores lda2 X2 = NaN"
  by (simp add: lda_scores_def lda2_def X2_def)

lemma lda_classify_nan: "lda_classify lda2 X2 = NaN"
  by (simp add: lda_classify_def lda_scores_nan rbind_def)

lemma lda_classify_series_nan:
  "lda_classify_series lda2 (zip [0, 1] X2) = Return [(0, None), (1, None)]"
proof -
  have "map snd (zip [0, 1 :: nat] X2) = X2" "length (zip [0, 1 :: nat] X2) = 2"
    "discrimination_matrix lda2 = AllNaN 2 2"
    by (simp_all add: X2_def lda2_def)
  then show ?thesis
    by (simp add: lda_classify_series_def lda_classify_nan upt_2)
qed

section \<open>Predicted labels\<close>

lemma series_labels:
  assumes "length labels = length idx" "set labels \<subseteq> set cols"
  shows "map fst (zip idx (map Some labels)) = idx"
    and "\<forall>l \<in> set (map snd (zip idx (map Some labels))). \<exists>c \<in> set cols. l = Some c"
  using assms by (auto simp: map_fst_zip dest!: set_zip_rightD)

lemma ls_classify_series_Return:
  assumes "ls_classify_series m samples = Return yhat"
  shows "\<exists>labels. ls_classify m (map snd samples) = Return labels
           \<and> yhat = zip (map fst samples) (map Some labels)"
  using assms by (auto simp: ls_classify_series_def rbind_def split: result.splits)

lemma qda_classify_series_Return:
  assumes "qda_classify_series m samples = Return yhat"
  shows "\<exists>labels. qda_classify m (map snd samples) = Return labels
           \<and> yhat = zip (map fst samples) (map Some labels)"
  using assms by (auto simp: qda_classify_series_def rbind_def split: result.splits)

lemma lda_classify_series_Return:
  assumes "lda_classify_series m samples = Return yhat"
  shows "(\<exists>labels. lda_classify m (map snd samples) = Return labels
            \<and> yhat = zip [0..<length samples] (map Some labels))
       \<or> (\<exists>r c. discrimination_matrix m = AllNaN r c \<and> lda_classify m (map snd samples) = NaN
            \<and> yhat = map (\<lambda>i. (i, None)) [0..<length samples])"
  using assms by (auto simp: lda_classify_series_def split: result.splits ndarray.splits)

lemma lda_classify_AllNaN:
  assumes "discrimination_matrix m = AllNaN r c"
  shows "lda_classify m samples = Return labels \<Longrightarrow> samples = [] \<and> labels = []"
    and "samples \<noteq> [] \<Longrightarrow> list_all (\<lambda>x. length x = r) samples \<Longrightarrow> c = length (lda_classes m) \<Longrightarrow>
         lda_classify m samples = NaN"
  using assms
  by (auto simp: lda_classify_def lda_scores_def rbind_def apply_idxmax_def
           split: result.splits if_splits)

lemma lda_classify_Finite:
  assumes "discrimination_matrix m = Finite D"
  shows "lda_classify_series m samples = Return yhat \<Longrightarrow>
         \<exists>labels. lda_classify m (map snd samples) = Return labels
           \<and> yhat = zip [0..<length samples] (map Some labels)"
  using assms by (auto dest!: lda_classify_series_Return)

lemma lda_fit_discrimination_matrix:
  assumes "lda_fit linalg_inv numeric p coords values = Return m"
  shows "length coords \<noteq> card (set values) \<Longrightarrow> \<exists>D. discrimination_matrix m = Finite D"
    and "length coords = card (set values) \<Longrightarrow> p \<noteq> 0 \<Longrightarrow> values \<noteq> [] \<Longrightarrow>
         \<exists>c. discrimination_matrix m = AllNaN p c"
proof -
  have k: "length (sorted_set values) = card (set values)" by (rule sorted_set_props)
  show "\<exists>D. discrimination_matrix m = Finite D" if "length coords \<noteq> card (set values)"
    using assms that
    by (auto simp: lda_fit_def Let_def rbind_def k split: result.splits option.splits if_splits)
  show "\<exists>c. discrimination_matrix m = AllNaN p c"
    if n: "length coords = card (set values)" and p: "p \<noteq> 0" and v: "values \<noteq> []"
  proof -
    from v have "card (set values) \<noteq> 0" by simp
    with n have "take (length coords) values \<noteq> []" using v by (cases coords) auto
    then have "sorted_set (take (length coords) values) \<noteq> []"
      using sorted_set_props(3) [of "take (length coords) values"] by (metis set_empty)
    with assms n p show ?thesis
      by (auto simp: lda_fit_def Let_def rbind_def k means_def split: result.splits if_splits)
  qed
qed

text \<open>
  Claim C1 (as amended). Each constructor records as its classes the sorted distinct labels.
  Whenever the scores of \<^verbatim>\<open>classify\<close> are real numbers, there is one label per sample and
  every label is one of the recorded classes, for each of the three classifiers; this is
  so for every linear discriminant classifier whose discrimination matrix is finite, as
  the constructor leaves it when the number of observations differs from the number of
  classes. A linear discriminant classifier fitted with one observation per class holds a
  discrimination matrix of NaN, and its \<^verbatim>\<open>classify\<close> returns NaN, which is no class,
  for every row of samples of the width of the training rows.
\<close>

theorem classify_labels_in_classes:
  "(ls_fit linalg_inv p coords values = Return m1 \<longrightarrow> ls_classes m1 = sorted_set values)
 \<and> (lda_fit linalg_inv numeric p coords values = Return m2 \<longrightarrow> lda_classes m2 = sorted_set values)
 \<and> (qda_fit linalg_inv linalg_det numeric p coords values = Return m3 \<longrightarrow>
       qda_classes m3 = sorted_set values)
 \<and> (ls_classify m1 samples = Return labels1 \<longrightarrow>
       length labels1 = length samples \<and> set labels1 \<subseteq> set (ls_classes m1))
 \<and> (lda_classify m2 samples = Return labels2 \<longrightarrow>
       length labels2 = length samples \<and> set labels2 \<subseteq> set (lda_classes m2))
 \<and> (qda_classify m3 samples = Return labels3 \<longrightarrow>
       length labels3 = length samples \<and> set labels3 \<subseteq> set (qda_classes m3))
 \<and> (ls_classify_series m1 frame = Return yhat1 \<longrightarrow>
       map fst yhat1 = map fst frame
     \<and> (\<forall>l \<in> set (map snd yhat1). \<exists>c \<in> set (ls_classes m1). l = Some c))
 \<and> (qda_classify_series m3 frame = Return yhat3 \<longrightarrow>
       map fst yhat3 = map fst frame
     \<and> (\<forall>l \<in> set (map snd yhat3). \<exists>c \<in> set (qda_classes m3). l = Some c))
 \<and> (lda_classify_series m2 frame = Return yhat2 \<longrightarrow>
       map fst yhat2 = [0..<length frame]
     \<and> (case discrimination_matrix m2 of
           Finite D \<Rightarrow> \<forall>l \<in> set (map snd yhat2). \<exists>c \<in> set (lda_classes m2). l = Some c
         | AllNaN r c \<Rightarrow> \<forall>l \<in> set (map snd yhat2). l = None))
 \<and> (lda_fit linalg_inv numeric p coords values = Return m2
       \<and> length coords \<noteq> card (set values) \<longrightarrow>
       (\<exists>D. discrimination_matrix m2 = Finite D))
 \<and> (lda_fit linalg_inv numeric p coords values = Return m2
       \<and> length coords = card (set values) \<and> p \<noteq> 0 \<and> values \<noteq> [] \<longrightarrow>
       (\<exists>c. discrimination_matrix m2 = AllNaN p c))
 \<and> (discrimination_matrix m2 = AllNaN r (length (lda_classes m2)) \<and> frame \<noteq> []
       \<and> list_all (\<lambda>x. length (snd x) = r) frame \<longrightarrow>
       lda_classify_series m2 frame = Return (map (\<lambda>i. (i, None)) [0..<length frame]))"
proof (intro conjI impI)
  show "ls_classes m1 = sorted_set values" if "ls_fit linalg_inv p coords values = Return m1"
    using that by (rule ls_fit_classes)
  show "lda_classes m2 = sorted_set values"
    if "lda_fit linalg_inv numeric p coords values = Return m2"
    using that by (rule lda_fit_classes)
  show "qda_classes m3 = sorted_set values"
    if "qda_fit linalg_inv linalg_det numeric p coords values = Return m3"
    using that by (rule qda_fit_classes)
next
  assume a: "ls_classify m1 samples = Return labels1"
  from ls_classify_first_max [OF a]
  show "length labels1 = length samples" "set labels1 \<subseteq> set (ls_classes m1)"
    by (blast dest: first_max_labels_subset)+
next
  assume a: "lda_classify m2 samples = Return labels2"
  from lda_classify_first_max [OF a]
  show "length labels2 = length samples" "set labels2 \<subseteq> set (lda_classes m2)"
    by (blast dest: first_max_labels_subset)+
next
  assume a: "qda_classify m3 samples = Return labels3"
  from qda_classify_first_max [OF a]
  show "length labels3 = length samples" "set labels3 \<subseteq> set (qda_classes m3)"
    by (blast dest: first_max_labels_subset)+
next
  assume a: "ls_classify_series m1 frame = Return yhat1"
  from ls_classify_series_Return [OF a] obtain labels
    where l: "ls_classify m1 (map snd frame) = Return labels"
      and y: "yhat1 = zip (map fst frame) (map Some labels)" by blast
  from ls_classify_first_max [OF l]
  have "length labels = length (map fst frame)" "set labels \<subseteq> set (ls_classes m1)"
    by (auto dest: first_max_labels_subset)
  from series_labels [OF this]
  show "map fst yhat1 = map fst frame"
    "\<forall>l \<in> set (map snd yhat1). \<exists>c \<in> set (ls_classes m1). l = Some c"
    unfolding y by blast+
next
  assume a: "qda_classify_series m3 frame = Return yhat3"
  from qda_classify_series_Return [OF a] obtain labels
    where l: "qda_classify m3 (map snd frame) = Return labels"
      and y: "yhat3 = zip (map fst frame) (map Some labels)" by blast
  from qda_classify_first_max [OF l]
  have "length labels = length (map fst frame)" "set labels \<subseteq> set (qda_classes m3)"
    by (auto dest: first_max_labels_subset)
  from series_labels [OF this]
  show "map fst yhat3 = map fst frame"
    "\<forall>l \<in> set (map snd yhat3). \<exists>c \<in> set (qda_classes m3). l = Some c"
    unfolding y by blast+
next
  assume a: "lda_classify_series m2 frame = Return yhat2"
  from lda_classify_series_Return [OF a]
  consider labels where "lda_classify m2 (map snd frame) = Return labels"
      "yhat2 = zip [0..<length frame] (map Some labels)"
    | r c where "discrimination_matrix m2 = AllNaN r c"
      "yhat2 = map (\<lambda>i. (i, None)) [0..<length frame]"
    by blast
  then have "map fst yhat2 = [0..<length frame]
     \<and> (case discrimination_matrix m2 of
           Finite D \<Rightarrow> \<forall>l \<in> set (map snd yhat2). \<exists>c \<in> set (lda_classes m2). l = Some c
         | AllNaN r c \<Rightarrow> \<forall>l \<in> set (map snd yhat2). l = None)"
  proof cases
    case 1
    from lda_classify_first_max [OF 1(1)]
    have len: "length labels = length [0..<length frame]"
      and sub: "set labels \<subseteq> set (lda_classes m2)"
      by (auto dest: first_max_labels_subset)
    note s = series_labels [OF len sub]
    show ?thesis
    proof (cases "discrimination_matrix m2")
      case (Finite D)
      with s show ?thesis unfolding 1(2) by simp
    next
      case (AllNaN r c)
      from lda_classify_AllNaN(1) [OF AllNaN 1(1)] have "labels = []" by simp
      with AllNaN s(1) show ?thesis unfolding 1(2) by simp
    qed
  next
    case 2
    then show ?thesis by (simp add: o_def)
  qed
  then show "map fst yhat2 = [0..<length frame]"
    and "case discrimination_matrix m2 of
           Finite D \<Rightarrow> \<forall>l \<in> set (map snd yhat2). \<exists>c \<in> set (lda_classes m2). l = Some c
         | AllNaN r c \<Rightarrow> \<forall>l \<in> set (map snd yhat2). l = None"
    by blast+
next
  assume "lda_fit linalg_inv numeric p coords values = Return m2
       \<and> length coords \<noteq> card (set values)"
  then show "\<exists>D. discrimination_matrix m2 = Finite D"
    using lda_fit_discrimination_matrix(1) by blast
next
  assume "lda_fit linalg_inv numeric p coords values = Return m2
       \<and> length coords = card (set values) \<and> p \<noteq> 0 \<and> values \<noteq> []"
  then show "\<exists>c. discrimination_matrix m2 = AllNaN p c"
    using lda_fit_discrimination_matrix(2) by blast
next
  assume a: "discrimination_matrix m2 = AllNaN r (length (lda_classes m2)) \<and> frame \<noteq> []
       \<and> list_all (\<lambda>x. length (snd x) = r) frame"
  then have "lda_classify m2 (map snd frame) = NaN"
    using lda_classify_AllNaN(2) [of m2 r "length (lda_classes m2)" "map snd frame"]
    by (simp add: list_all_iff)
  with a show "lda_classify_series m2 frame = Return (map (\<lambda>i. (i, None)) [0..<length frame])"
    by (simp add: lda_classify_series_def)
qed

lemma series_S0:
  "ls_classify_series ls0 (zip [4, 5, 6] S0) = Return [(4, Some 0), (5, Some 1), (6, Some 1)]"
  "lda_classify_series lda0 (zip [4, 5, 6] S0) = Return [(0, Some 0), (1, Some 1), (2, Some 0)]"
  "qda_classify_series qda0 (zip [4, 5, 6] S0) = Return [(4, Some 0), (5, Some 1), (6, Some 0)]"
proof -
  have S: "map snd (zip [4, 5, 6 :: nat] S0) = S0" "map fst (zip [4, 5, 6 :: nat] S0) = [4, 5, 6]"
    "length (zip [4, 5, 6 :: nat] S0) = 3"
    by (simp_all add: S0_def)
  have s1: "ls_classify_series ls0 (zip [4, 5, 6] S0) = Return [(4, Some 0), (5, Some 1), (6, Some 1)]"
    by (simp add: ls_classify_series_def S ls_classify_example rbind_def)
  have s3: "qda_classify_series qda0 (zip [4, 5, 6] S0) = Return [(4, Some 0), (5, Some 1), (6, Some 0)]"
    by (simp add: qda_classify_series_def S qda_classify_example rbind_def)
  have "lda_classify_series lda0 (zip [4, 5, 6] S0)
          = Return (zip [0..<length (zip [4, 5, 6 :: nat] S0)] (map Some [0, 1, 0]))"
    unfolding lda_classify_series_def S(1) lda_classify_example by simp
  also have "zip [0..<length (zip [4, 5, 6 :: nat] S0)] (map Some [0, 1, 0 :: int])
          = [(0, Some 0), (1, Some 1), (2, Some 0)]"
    by code_simp
  finally have s2: "lda_classify_series lda0 (zip [4, 5, 6] S0)
          = Return [(0, Some 0), (1, Some 1), (2, Some 0)]" .
  show "ls_classify_series ls0 (zip [4, 5, 6] S0) = Return [(4, Some 0), (5, Some 1), (6, Some 1)]"
    "lda_classify_series lda0 (zip [4, 5, 6] S0) = Return [(0, Some 0), (1, Some 1), (2, Some 0)]"
    "qda_classify_series qda0 (zip [4, 5, 6] S0) = Return [(4, Some 0), (5, Some 1), (6, Some 0)]"
    by (fact s1 s2 s3)+
qed

theorem classify_labels_in_classes_witness:
  "ls_fit inv2 2 X0 y0 = Return ls0 \<and> lda_fit inv2 True 2 X0 y0 = Return lda0
   \<and> qda_fit inv2 det2 True 2 X0 y0 = Return qda0
   \<and> ls_classify ls0 S0 = Return [0, 1, 1] \<and> lda_classify lda0 S0 = Return [0, 1, 0]
   \<and> qda_classify qda0 S0 = Return [0, 1, 0]
   \<and> ls_classes ls0 = sorted_set y0 \<and> lda_classes lda0 = sorted_set y0
   \<and> qda_classes qda0 = sorted_set y0
   \<and> set [0, 1, 1] \<subseteq> set (ls_classes ls0) \<and> set [0, 1, 0] \<subseteq> set (lda_classes lda0)
   \<and> set [0, 1, 0] \<subseteq> set (qda_classes qda0)
   \<and> ls_classify_series ls0 (zip [4, 5, 6] S0) = Return [(4, Some 0), (5, Some 1), (6, Some 1)]
   \<and> qda_classify_series qda0 (zip [4, 5, 6] S0) = Return [(4, Some 0), (5, Some 1), (6, Some 0)]
   \<and> lda_classify_series lda0 (zip [4, 5, 6] S0) = Return [(0, Some 0), (1, Some 1), (2, Some 0)]
   \<and> length X0 \<noteq> card (set y0) \<and> discrimination_matrix lda0 = Finite [[2, 26], [2, 26]]
   \<and> lda_fit inv2 True 2 X2 y2 = Return lda2 \<and> length X2 = card (set y2) \<and> y2 \<noteq> []
   \<and> discrimination_matrix lda2 = AllNaN 2 (length (lda_classes lda2))
   \<and> zip [0, 1 :: nat] X2 \<noteq> [] \<and> list_all (\<lambda>x. length (snd x) = 2) (zip [0, 1 :: nat] X2)
   \<and> lda_classify_series lda2 (zip [0, 1] X2)
        = Return (map (\<lambda>i. (i, None)) [0..<length (zip [0, 1 :: nat] X2)])
   \<and> map (\<lambda>i. (i, None :: int option)) [0..<length (zip [0, 1 :: nat] X2)] = [(0, None), (1, None)]"
proof -
  note s1 = series_S0(1) and s2 = series_S0(2) and s3 = series_S0(3)
  have c: "length X0 \<noteq> card (set y0)" "length X2 = card (set y2)" "y2 \<noteq> []"
    "zip [0, 1 :: nat] X2 \<noteq> []" "list_all (\<lambda>x. length (snd x) = 2) (zip [0, 1 :: nat] X2)"
    "map (\<lambda>i. (i, None :: int option)) [0..<length (zip [0, 1 :: nat] X2)] = [(0, None), (1, None)]"
    by code_simp+
  have d: "discrimination_matrix lda0 = Finite [[2, 26], [2, 26]]"
    "discrimination_matrix lda2 = AllNaN 2 (length (lda_classes lda2))"
    by (simp_all add: lda0_def lda2_def)
  note t0 = classify_labels_in_classes [of inv2 2 X0 y0 ls0 True lda0 det2 qda0 S0
      "[0, 1, 1]" "[0, 1, 0]" "[0, 1, 0]" "zip [4, 5, 6] S0"
      "[(4, Some 0), (5, Some 1), (6, Some 1)]" "[(4, Some 0), (5, Some 1), (6, Some 0)]"
      "[(0, Some 0), (1, Some 1), (2, Some 0)]" 2]
  note t2 = classify_labels_in_classes [of inv2 2 X2 y2 ls0 True lda2 det2 qda0 S0
      "[0, 1, 1]" "[0, 1, 0]" "[0, 1, 0]" "zip [0, 1] X2"
      "[(4, Some 0), (5, Some 1), (6, Some 1)]" "[(4, Some 0), (5, Some 1), (6, Some 0)]"
      "[(0, None), (1, None)]" 2]
  from t0 ls_fit_example lda_fit_example qda_fit_example
    ls_classify_example lda_classify_example qda_classify_example
  have a: "ls_classes ls0 = sorted_set y0" "lda_classes lda0 = sorted_set y0"
    "qda_classes qda0 = sorted_set y0"
    "set [0, 1, 1] \<subseteq> set (ls_classes ls0)" "set [0, 1, 0] \<subseteq> set (lda_classes lda0)"
    "set [0, 1, 0] \<subseteq> set (qda_classes qda0)"
    by blast+
  from t2 d(2) c(4,5)
  have b: "lda_classify_series lda2 (zip [0, 1] X2)
          = Return (map (\<lambda>i. (i, None)) [0..<length (zip [0, 1 :: nat] X2)])"
    by blast
  note e = ls_fit_example lda_fit_example qda_fit_example
    ls_classify_example lda_classify_example qda_classify_example
    lda_fit_one_row_per_class [of inv2]
  show ?thesis
    by (intro conjI) (fact a b s1 s2 s3 c d e)+
qed

text \<open>
  For the rows \<open>(0, 0)\<close> and \<open>(1, 1)\<close> with the labels 0 and 1 the linear discriminant
  constructor returns a classifier, and \<^verbatim>\<open>classify\<close> of that classifier on the two rows
  returns NaN twice: labels that are not among the classes 0 and 1.
\<close>

theorem lda_nan_labels_counterexample:
  "lda_fit inv2 True 2 X2 y2 = Return lda2 \<and> lda_classes lda2 = [0, 1]
   \<and> lda_classify_series lda2 (zip [0, 1] X2) = Return [(0, None), (1, None)]"
  by (intro conjI lda_fit_one_row_per_class lda_classify_series_nan example_classes)

text \<open>
  Claim C5. For each of the three classifiers, the label returned for a row is the label of
  the first column that holds the maximum of the row of scores: every earlier column is
  strictly smaller. The classes being sorted, as every constructor leaves them, the label is
  the lowest among the classes tied at the maximum.
\<close>

theorem classify_tie_break:
  "(ls_fit linalg_inv p coords values = Return m1 \<longrightarrow> sorted (ls_classes m1))
 \<and> (lda_fit linalg_inv numeric p coords values = Return m2 \<longrightarrow> sorted (lda_classes m2))
 \<and> (qda_fit linalg_inv linalg_det numeric p coords values = Return m3 \<longrightarrow>
       sorted (qda_classes m3))
 \<and> (ls_classify m1 samples = Return labels1 \<longrightarrow>
      (\<exists>S. ls_scores m1 samples = Return S
         \<and> (\<forall>i < length samples. first_max_label (ls_classes m1) (S ! i) (labels1 ! i)
              \<and> (sorted (ls_classes m1) \<longrightarrow> lowest_tied_class (ls_classes m1) (S ! i) (labels1 ! i)))))
 \<and> (lda_classify m2 samples = Return labels2 \<longrightarrow>
      (\<exists>S. lda_scores m2 samples = Return S
         \<and> (\<forall>i < length samples. first_max_label (lda_classes m2) (S ! i) (labels2 ! i)
              \<and> (sorted (lda_classes m2) \<longrightarrow> lowest_tied_class (lda_classes m2) (S ! i) (labels2 ! i)))))
 \<and> (qda_classify m3 samples = Return labels3 \<longrightarrow>
      (\<exists>S. qda_scores m3 samples = Return S
         \<and> (\<forall>i < length samples. first_max_label (qda_classes m3) (S ! i) (labels3 ! i)
              \<and> (sorted (qda_classes m3) \<longrightarrow> lowest_tied_class (qda_classes m3) (S ! i) (labels3 ! i)))))"
proof (intro conjI impI)
  assume "ls_classify m1 samples = Return labels1"
  from ls_classify_first_max [OF this]
  show "\<exists>S. ls_scores m1 samples = Return S
         \<and> (\<forall>i < length samples. first_max_label (ls_classes m1) (S ! i) (labels1 ! i)
              \<and> (sorted (ls_classes m1) \<longrightarrow> lowest_tied_class (ls_classes m1) (S ! i) (labels1 ! i)))"
    by (rule tie_break_generic) (auto dest: ls_scores_shape)
next
  assume "lda_classify m2 samples = Return labels2"
  from lda_classify_first_max [OF this]
  show "\<exists>S. lda_scores m2 samples = Return S
         \<and> (\<forall>i < length samples. first_max_label (lda_classes m2) (S ! i) (labels2 ! i)
              \<and> (sorted (lda_classes m2) \<longrightarrow> lowest_tied_class (lda_classes m2) (S ! i) (labels2 ! i)))"
    by (rule tie_break_generic) (auto dest: lda_scores_shape)
next
  assume "qda_classify m3 samples = Return labels3"
  from qda_classify_first_max [OF this]
  show "\<exists>S. qda_scores m3 samples = Return S
         \<and> (\<forall>i < length samples. first_max_label (qda_classes m3) (S ! i) (labels3 ! i)
              \<and> (sorted (qda_classes m3) \<longrightarrow> lowest_tied_class (qda_classes m3) (S ! i) (labels3 ! i)))"
    by (rule tie_break_generic) (auto dest: qda_scores_shape)
qed (simp_all add: fit_classes_sorted)

theorem classify_tie_break_witness:
  "ls_classify ls0 S0 = Return [0, 1, 1] \<and> lda_classify lda0 S0 = Return [0, 1, 0]
   \<and> qda_classify qda0 S0 = Return [0, 1, 0]
   \<and> (\<exists>S. ls_scores ls0 S0 = Return S \<and> S ! 0 ! 0 = S ! 0 ! 1
         \<and> first_max_label (ls_classes ls0) (S ! 0) 0
         \<and> lowest_tied_class (ls_classes ls0) (S ! 0) 0)
   \<and> (\<exists>S. lda_scores lda0 S0 = Return S \<and> S ! 2 ! 0 = S ! 2 ! 1
         \<and> first_max_label (lda_classes lda0) (S ! 2) 0
         \<and> lowest_tied_class (lda_classes lda0) (S ! 2) 0)
   \<and> (\<exists>S. qda_scores qda0 S0 = Return S \<and> S ! 2 ! 0 = S ! 2 ! 1
         \<and> first_max_label (qda_classes qda0) (S ! 2) 0
         \<and> lowest_tied_class (qda_classes qda0) (S ! 2) 0)"
proof -
  have len: "length S0 = 3" by (simp add: S0_def)
  have srt: "sorted (ls_classes ls0)" "sorted (lda_classes lda0)" "sorted (qda_classes qda0)"
    by (simp_all add: example_classes)
  note t = classify_tie_break [of inv2 2 X0 y0 ls0 True lda0 det2 qda0 S0 "[0, 1, 1]" "[0, 1, 0]" "[0, 1, 0]"]
  from t ls_classify_example obtain S1 where S1: "ls_scores ls0 S0 = Return S1"
    and f1: "\<forall>i < length S0. first_max_label (ls_classes ls0) (S1 ! i) ([0, 1, 1] ! i)
              \<and> (sorted (ls_classes ls0) \<longrightarrow> lowest_tied_class (ls_classes ls0) (S1 ! i) ([0, 1, 1] ! i))"
    by blast
  from t lda_classify_example obtain S2 where S2: "lda_scores lda0 S0 = Return S2"
    and f2: "\<forall>i < length S0. first_max_label (lda_classes lda0) (S2 ! i) ([0, 1, 0] ! i)
              \<and> (sorted (lda_classes lda0) \<longrightarrow> lowest_tied_class (lda_classes lda0) (S2 ! i) ([0, 1, 0] ! i))"
    by blast
  from t qda_classify_example obtain S3 where S3: "qda_scores qda0 S0 = Return S3"
    and f3: "\<forall>i < length S0. first_max_label (qda_classes qda0) (S3 ! i) ([0, 1, 0] ! i)
              \<and> (sorted (qda_classes qda0) \<longrightarrow> lowest_tied_class (qda_classes qda0) (S3 ! i) ([0, 1, 0] ! i))"
    by blast
  from S1 have e1: "S1 ! 0 ! 0 = S1 ! 0 ! 1" by (auto simp: ls_scores_example)
  from S2 have e2: "S2 ! 2 ! 0 = S2 ! 2 ! 1" by (auto simp: lda_scores_example)
  from S3 have e3: "S3 ! 2 ! 0 = S3 ! 2 ! 1" by (auto simp: qda_scores_example)
  from f1 [rule_format, of 0] srt len have g1: "first_max_label (ls_classes ls0) (S1 ! 0) 0
      \<and> lowest_tied_class (ls_classes ls0) (S1 ! 0) 0" by simp
  from f2 [rule_format, of 2] srt len have g2: "first_max_label (lda_classes lda0) (S2 ! 2) 0
      \<and> lowest_tied_class (lda_classes lda0) (S2 ! 2) 0" by simp
  from f3 [rule_format, of 2] srt len have g3: "first_max_label (qda_classes qda0) (S3 ! 2) 0
      \<and> lowest_tied_class (qda_classes qda0) (S3 ! 2) 0" by simp
  from S1 S2 S3 e1 e2 e3 g1 g2 g3 ls_classify_example lda_classify_example qda_classify_example
  show ?thesis by blast
qed

section \<open>Error rate\<close>








section \<open>Rounding\<close>

lemma frexp_scale:
  "frexp fuel x e = (m, e') \<Longrightarrow> m * 2 powi e' = x * 2 powi e"
proof (induction fuel x e rule: frexp.induct)
  case (1 fuel x e)
  show ?case
  proof (cases "fuel = 0")
    case True
    with 1(3) show ?thesis by (simp add: frexp.simps [of 0])
  next
    case f: False
    show ?thesis
    proof (cases "x < 1")
      case True
      with f 1(3) have "frexp (fuel - 1) (2 * x) (e - 1) = (m, e')"
        by (simp add: frexp.simps [of fuel])
      from 1(1) [OF f True this] show ?thesis
        by (simp add: power_int_diff)
    next
      case x: False
      show ?thesis
      proof (cases "2 \<le> x")
        case True
        with f x 1(3) have "frexp (fuel - 1) (x / 2) (e + 1) = (m, e')"
          by (simp add: frexp.simps [of fuel])
        from 1(2) [OF f x True this] show ?thesis
          by (simp add: power_int_add)
      next
        case False
        with f x 1(3) show ?thesis by (simp add: frexp.simps [of fuel])
      qed
    qed
  qed
qed

lemma frexp_range:
  "x < 2 \<Longrightarrow> 1 \<le> x * 2 ^ fuel \<Longrightarrow> frexp fuel x e = (m, e') \<Longrightarrow> 1 \<le> m \<and> m < 2"
proof (induction fuel x e rule: frexp.induct)
  case (1 fuel x e)
  show ?case
  proof (cases "fuel = 0")
    case True
    with 1(3,4,5) show ?thesis by (simp add: frexp.simps [of 0])
  next
    case f: False
    then obtain g where g: "fuel = Suc g" by (cases fuel) auto
    show ?thesis
    proof (cases "x < 1")
      case True
      with f 1(5) have r: "frexp (fuel - 1) (2 * x) (e - 1) = (m, e')"
        by (simp add: frexp.simps [of fuel])
      have "2 * x < 2" using True by simp
      moreover have "1 \<le> 2 * x * 2 ^ (fuel - 1)" using 1(4) by (simp add: g mult.commute mult.left_commute)
      ultimately show ?thesis using 1(1) [OF f True _ _ r] by blast
    next
      case False
      with f 1(3,5) show ?thesis by (simp add: frexp.simps [of fuel])
    qed
  qed
qed

lemma round_half_even_near: "\<bar>of_int (round_half_even r) - r\<bar> \<le> 1 / 2"
proof -
  have "of_int \<lfloor>r\<rfloor> \<le> r" "r < of_int \<lfloor>r\<rfloor> + 1" by linarith+
  then show ?thesis
    by (auto simp: round_half_even_def Let_def)
qed

lemma round_half_even_pos: "1 \<le> r \<Longrightarrow> 1 \<le> round_half_even r"
proof -
  assume "1 \<le> r"
  then have "1 \<le> \<lfloor>r\<rfloor>" by linarith
  then show ?thesis by (auto simp: round_half_even_def Let_def)
qed

text \<open>
  A positive number below 2 and not below \<open>2\<^sup>-\<^sup>1\<^sup>1\<^sup>0\<^sup>0\<close> is rounded to a positive number,
  with a relative error of at most \<open>2\<^sup>-\<^sup>5\<^sup>3\<close>.
\<close>

lemma float64_near:
  assumes "0 < x" "x < 2" "1 \<le> x * 2 ^ 1100"
  shows "0 < float64 x" and "\<bar>float64 x - x\<bar> \<le> x / 2 ^ 53"
proof -
  obtain m e where fr: "frexp 1100 \<bar>x\<bar> 0 = (m, e)" by (cases "frexp 1100 \<bar>x\<bar> 0")
  from assms have ax: "\<bar>x\<bar> = x" by simp
  from frexp_scale [OF fr] ax have sc: "m * 2 powi e = x" by simp
  from frexp_range [OF _ _ fr] assms ax have m: "1 \<le> m" "m < 2" by simp_all
  let ?q = "round_half_even (m * 2 ^ 52)"
  have fl: "float64 x = of_int ?q * 2 powi (e - 52)"
    using assms(1) fr ax by (simp add: float64_def)
  have "1 * 1 \<le> m * 2 ^ 52" using m(1) by (intro mult_mono) simp_all
  then have "1 \<le> m * 2 ^ 52" by simp
  then have q: "1 \<le> ?q" by (rule round_half_even_pos)
  have pe: "(0::real) < 2 powi (e - 52)" by simp
  from q pe show "0 < float64 x" unfolding fl by (simp add: zero_less_mult_iff)
  have split: "(2::real) powi e = 2 ^ 52 * 2 powi (e - 52)"
    by (simp add: power_int_diff)
  have xe: "m * 2 ^ 52 * 2 powi (e - 52) = x"
    using sc by (simp add: split)
  have "float64 x - x = of_int ?q * 2 powi (e - 52) - m * 2 ^ 52 * 2 powi (e - 52)"
    by (simp only: fl xe)
  also have "\<dots> = (of_int ?q - m * 2 ^ 52) * 2 powi (e - 52)"
    by (simp only: left_diff_distrib)
  finally have "float64 x - x = (of_int ?q - m * 2 ^ 52) * 2 powi (e - 52)" .
  then have "\<bar>float64 x - x\<bar> = \<bar>of_int ?q - m * 2 ^ 52\<bar> * 2 powi (e - 52)"
    by (simp add: abs_mult)
  also have "\<dots> \<le> 1 / 2 * 2 powi (e - 52)"
    using round_half_even_near [of "m * 2 ^ 52"] pe by (simp add: mult_right_mono)
  also have "\<dots> = 2 powi e / 2 ^ 53"
    unfolding split by simp
  also have "\<dots> \<le> x / 2 ^ 53"
  proof -
    have "(0::real) \<le> 2 powi e" by simp
    with m(1) have "1 * 2 powi e \<le> m * 2 powi e" by (rule mult_right_mono)
    then have "(2::real) powi e \<le> m * 2 powi e" by simp
    then show ?thesis unfolding sc by (simp add: divide_right_mono)
  qed
  finally show "\<bar>float64 x - x\<bar> \<le> x / 2 ^ 53" .
qed

section \<open>Prior probabilities\<close>

lemma sum_list_of_bool_distinct_nat:
  "distinct cs \<Longrightarrow> sum_list (map (\<lambda>c. of_bool (x = c)) cs) = (of_bool (x \<in> set cs) :: nat)"
  by (induction cs) auto

lemma sum_count_list:
  "distinct cs \<Longrightarrow> set vs \<subseteq> set cs \<Longrightarrow> sum_list (map (count_list vs) cs) = length vs"
proof (induction vs)
  case Nil
  then show ?case by simp
next
  case (Cons v vs)
  have "sum_list (map (count_list (v # vs)) cs)
      = sum_list (map (\<lambda>c. count_list vs c + of_bool (v = c)) cs)"
    by (intro arg_cong [where f = sum_list] map_cong) auto
  also have "\<dots> = sum_list (map (count_list vs) cs) + sum_list (map (\<lambda>c. of_bool (v = c)) cs)"
    by (simp add: sum_list_addf)
  also have "\<dots> = length (v # vs)"
    using Cons by (simp add: sum_list_of_bool_distinct_nat)
  finally show ?case .
qed

lemma real_sum_list: "real (sum_list (map f xs)) = sum_list (map (\<lambda>x. real (f x)) xs)"
  by (induction xs) simp_all

lemma sum_list_divide_const:
  "sum_list (map (\<lambda>x. f x / (d::real)) xs) = sum_list (map f xs) / d"
  by (induction xs) (simp_all add: add_divide_distrib)

lemma prior_near:
  assumes c: "c \<in> set values" and n: "length values \<le> 2 ^ 53"
  shows "0 < float64 (real (count_list values c) / real (length values))"
    and "\<bar>float64 (real (count_list values c) / real (length values))
           - real (count_list values c) / real (length values)\<bar>
         \<le> real (count_list values c) / real (length values) / 2 ^ 53"
proof -
  let ?k = "count_list values c" and ?n = "length values"
  let ?x = "real ?k / real ?n"
  from c have "?k \<noteq> 0" by (simp add: count_list_0_iff)
  then have k: "1 \<le> ?k" by simp
  have "?k \<le> ?n" by (rule count_le_length)
  with k have n0: "0 < ?n" by linarith
  have x0: "0 < ?x" using k n0 by simp
  have x2: "?x < 2"
  proof -
    have "real ?k \<le> real ?n" "0 < real ?n" using \<open>?k \<le> ?n\<close> n0 by simp_all
    then have "real ?k < 2 * real ?n" by linarith
    then show ?thesis using n0 by (simp add: pos_divide_less_eq)
  qed
  have "real ?n \<le> 2 ^ 53" using n by (metis of_nat_le_iff of_nat_numeral of_nat_power)
  also have "(2::real) ^ 53 \<le> 2 ^ 1100" by (rule power_increasing) simp_all
  also have "(2::real) ^ 1100 = 1 * 2 ^ 1100" by simp
  also have "\<dots> \<le> real ?k * 2 ^ 1100" using k by (intro mult_right_mono) simp_all
  finally have "real ?n \<le> real ?k * 2 ^ 1100" .
  then have x1: "1 \<le> ?x * 2 ^ 1100" using n0 by (simp add: pos_le_divide_eq)
  from float64_near [OF x0 x2 x1]
  show "0 < float64 ?x" and "\<bar>float64 ?x - ?x\<bar> \<le> ?x / 2 ^ 53" .
qed

lemma exact_priors_sum:
  assumes "values \<noteq> []"
  shows "sum_list (map (\<lambda>c. real (count_list values c) / real (length values)) (sorted_set values)) = 1"
proof -
  have "sum_list (map (\<lambda>c. real (count_list values c) / real (length values)) (sorted_set values))
      = sum_list (map (\<lambda>c. real (count_list values c)) (sorted_set values)) / real (length values)"
    by (rule sum_list_divide_const)
  also have "sum_list (map (\<lambda>c. real (count_list values c)) (sorted_set values))
      = real (sum_list (map (count_list values) (sorted_set values)))"
    by (rule real_sum_list [symmetric])
  also have "sum_list (map (count_list values) (sorted_set values)) = length values"
    by (rule sum_count_list) (simp_all add: sorted_set_props)
  finally show ?thesis using assms by simp
qed

lemma sum_list_diff_abs:
  fixes f g :: "'a \<Rightarrow> real"
  assumes "\<And>x. x \<in> set xs \<Longrightarrow> \<bar>f x - g x\<bar> \<le> h x"
  shows "\<bar>sum_list (map f xs) - sum_list (map g xs)\<bar> \<le> sum_list (map h xs)"
  using assms
proof (induction xs)
  case Nil
  then show ?case by simp
next
  case (Cons x xs)
  have "\<bar>f x - g x\<bar> \<le> h x" using Cons.prems by simp
  moreover have "\<bar>sum_list (map f xs) - sum_list (map g xs)\<bar> \<le> sum_list (map h xs)"
    using Cons by simp
  ultimately show ?case by simp
qed

lemma fit_probabilities:
  "lda_fit linalg_inv numeric p coords values = Return m2 \<Longrightarrow>
   lda_probabilities m2 = probabilities values"
  "qda_fit linalg_inv linalg_det numeric p coords values = Return m3 \<Longrightarrow>
   qda_probabilities m3 = probabilities values"
  by (auto simp: lda_fit_def qda_fit_def Let_def rbind_def
           split: option.splits if_splits result.splits)

text \<open>
  Claim C10 (as amended). The linear and the quadratic discriminant classifier record as
  prior of each class the float64 quotient of its count by the number of labels. For a
  label vector that is not empty (and of no more than \<open>2\<^sup>5\<^sup>3\<close> labels) every prior is
  strictly positive; the exact quotients sum to 1, and the recorded priors sum to 1 up to
  rounding: their sum differs from 1 by at most \<open>2\<^sup>-\<^sup>5\<^sup>3\<close>.
\<close>

theorem probabilities_distribution:
  "(lda_fit linalg_inv numeric p coords values = Return m2 \<longrightarrow>
       lda_probabilities m2 = probabilities values)
 \<and> (qda_fit linalg_inv linalg_det numeric p coords values = Return m3 \<longrightarrow>
       qda_probabilities m3 = probabilities values)
 \<and> map fst (probabilities values) = sorted_set values
 \<and> (\<forall>c \<in> set (sorted_set values).
       map_of (probabilities values) c
         = Some (float64 (real (count_list values c) / real (length values))))
 \<and> (values \<noteq> [] \<and> length values \<le> 2 ^ 53 \<longrightarrow>
       (\<forall>(c, pr) \<in> set (probabilities values). 0 < pr)
     \<and> sum_list (map (\<lambda>c. real (count_list values c) / real (length values))
                  (sorted_set values)) = 1
     \<and> \<bar>sum_list (map snd (probabilities values)) - 1\<bar> \<le> 1 / 2 ^ 53)"
proof (intro conjI impI)
  show "lda_fit linalg_inv numeric p coords values = Return m2 \<Longrightarrow>
      lda_probabilities m2 = probabilities values"
    by (rule fit_probabilities)
  show "qda_fit linalg_inv linalg_det numeric p coords values = Return m3 \<Longrightarrow>
      qda_probabilities m3 = probabilities values"
    by (rule fit_probabilities)
  show "map fst (probabilities values) = sorted_set values"
    by (simp add: probabilities_def o_def)
  show "\<forall>c \<in> set (sorted_set values).
          map_of (probabilities values) c
            = Some (float64 (real (count_list values c) / real (length values)))"
    by (auto simp: probabilities_def map_of_map_restrict restrict_map_def)
next
  assume a: "values \<noteq> [] \<and> length values \<le> 2 ^ 53"
  let ?x = "\<lambda>c. real (count_list values c) / real (length values)"
  from a have ne: "values \<noteq> []" and n: "length values \<le> 2 ^ 53" by simp_all
  show "\<forall>(c, pr) \<in> set (probabilities values). 0 < pr"
    using prior_near(1) [OF _ n] by (auto simp: probabilities_def sorted_set_props)
  show ex: "sum_list (map ?x (sorted_set values)) = 1"
    by (rule exact_priors_sum [OF ne])
  have "\<bar>sum_list (map (\<lambda>c. float64 (?x c)) (sorted_set values))
          - sum_list (map ?x (sorted_set values))\<bar>
        \<le> sum_list (map (\<lambda>c. ?x c / 2 ^ 53) (sorted_set values))"
    by (rule sum_list_diff_abs) (rule prior_near(2) [OF _ n], simp add: sorted_set_props)
  also have "\<dots> = sum_list (map ?x (sorted_set values)) / 2 ^ 53"
    by (rule sum_list_divide_const)
  finally show "\<bar>sum_list (map snd (probabilities values)) - 1\<bar> \<le> 1 / 2 ^ 53"
    unfolding ex by (simp add: probabilities_def o_def)
qed

theorem probabilities_distribution_witness:
  "lda_fit inv2 True 2 X0 y0 = Return lda0 \<and> qda_fit inv2 det2 True 2 X0 y0 = Return qda0
   \<and> y0 \<noteq> [] \<and> length y0 \<le> 2 ^ 53
   \<and> lda_probabilities lda0 = [(0, 1 / 2), (1, 1 / 2)]
   \<and> qda_probabilities qda0 = [(0, 1 / 2), (1, 1 / 2)]
   \<and> probabilities y0 = [(0, 1 / 2), (1, 1 / 2)]
   \<and> \<bar>sum_list (map snd (probabilities y0)) - 1\<bar> \<le> 1 / 2 ^ 53"
proof -
  have n: "y0 \<noteq> []" "length y0 \<le> 2 ^ 53" by (simp_all add: y0_def)
  note t = probabilities_distribution [of inv2 True 2 X0 y0 lda0 det2 qda0]
  from t lda_fit_example have l: "lda_probabilities lda0 = probabilities y0" by blast
  from t qda_fit_example have q: "qda_probabilities qda0 = probabilities y0" by blast
  from t n have s: "\<bar>sum_list (map snd (probabilities y0)) - 1\<bar> \<le> 1 / 2 ^ 53" by blast
  note p = example_parts(4)
  note l' = l [unfolded p] and q' = q [unfolded p]
  show ?thesis
    by (intro conjI) (fact n l' q' s p lda_fit_example qda_fit_example)+
qed

text \<open>
  Six classes of two labels each: every prior is the float64 nearest to \<open>1 / 6\<close>, which
  lies below \<open>1 / 6\<close>. The six priors do not sum to 1, neither as exact numbers nor added
  up in float64 arithmetic.
\<close>

theorem probabilities_sum_counterexample:
  "probabilities y6
     = [(0, 6004799503160661 / 2 ^ 55), (1, 6004799503160661 / 2 ^ 55),
        (2, 6004799503160661 / 2 ^ 55), (3, 6004799503160661 / 2 ^ 55),
        (4, 6004799503160661 / 2 ^ 55), (5, 6004799503160661 / 2 ^ 55)]
   \<and> sum_list (map snd (probabilities y6)) = 1 - 1 / 2 ^ 54
   \<and> float_sum (map snd (probabilities y6)) = 1 - 1 / 2 ^ 53"
  by code_simp

section \<open>Matrix products\<close>

lemma dot_sum: "dot u v = (\<Sum>a < length u. u ! a * v ! a)"
  by (simp add: dot_def interv_sum_list_conv_sum_set_nat atLeast0LessThan)

lemma wf_matrixD:
  "wf_matrix n p A \<Longrightarrow> length A = n"
  "wf_matrix n p A \<Longrightarrow> i < n \<Longrightarrow> length (A ! i) = p"
  by (auto simp: wf_matrix_def list_all_length)

lemma wf_matrixI:
  "length A = n \<Longrightarrow> (\<And>i. i < n \<Longrightarrow> length (A ! i) = p) \<Longrightarrow> wf_matrix n p A"
  by (auto simp: wf_matrix_def list_all_length)

lemma matrix_eqI:
  assumes "wf_matrix n p A" "wf_matrix n p B"
    and "\<And>i j. i < n \<Longrightarrow> j < p \<Longrightarrow> A ! i ! j = B ! i ! j"
  shows "A = B"
proof (rule nth_equalityI)
  show "length A = length B" using assms(1,2) by (simp add: wf_matrixD)
  fix i assume "i < length A"
  then have i: "i < n" using assms(1) by (simp add: wf_matrixD)
  show "A ! i = B ! i"
    by (rule nth_equalityI) (use assms i in \<open>simp_all add: wf_matrixD\<close>)
qed

lemma wf_np_dot: "length A = n \<Longrightarrow> wf_matrix n k (np_dot k A B)"
  by (simp add: wf_matrix_def np_dot_def list_all_iff)

lemma np_dot_nth:
  assumes "i < length A" "j < k" "length (A ! i) = length B"
  shows "np_dot k A B ! i ! j = (\<Sum>a < length B. A ! i ! a * B ! a ! j)"
  using assms by (simp add: np_dot_def dot_sum column_def)

lemma wf_np_transpose: "wf_matrix p (length A) (np_transpose p A)"
  by (simp add: wf_matrix_def np_transpose_def column_def list_all_iff)

lemma np_transpose_nth: "j < p \<Longrightarrow> i < length A \<Longrightarrow> np_transpose p A ! j ! i = A ! i ! j"
  by (simp add: np_transpose_def column_def)

lemma np_dot_assoc:
  assumes A: "wf_matrix m n A" and B: "wf_matrix n p B" and C: "wf_matrix p q C"
  shows "np_dot q (np_dot p A B) C = np_dot q A (np_dot q B C)"
proof (rule matrix_eqI [of m q])
  show "wf_matrix m q (np_dot q (np_dot p A B) C)"
    by (rule wf_np_dot) (simp add: np_dot_def wf_matrixD [OF A])
  show "wf_matrix m q (np_dot q A (np_dot q B C))"
    by (rule wf_np_dot) (simp add: wf_matrixD [OF A])
  fix i j assume i: "i < m" and j: "j < q"
  have lA: "length A = m" "length (A ! i) = n" using A i by (simp_all add: wf_matrixD)
  have lB: "length B = n" "\<And>a. a < n \<Longrightarrow> length (B ! a) = p" using B by (simp_all add: wf_matrixD)
  have lC: "length C = p" using C by (simp add: wf_matrixD)
  have AB: "length (np_dot p A B) = m" "length (np_dot p A B ! i) = p"
    using wf_np_dot [of A m p B] lA i by (simp_all add: wf_matrixD)
  have BC: "length (np_dot q B C) = n"
    using wf_np_dot [of B n q C] lB by (simp add: wf_matrixD)
  have "np_dot q (np_dot p A B) C ! i ! j = (\<Sum>b < p. np_dot p A B ! i ! b * C ! b ! j)"
    using np_dot_nth [of i "np_dot p A B" j q C] i j AB lC by simp
  also have "\<dots> = (\<Sum>b < p. (\<Sum>a < n. A ! i ! a * B ! a ! b) * C ! b ! j)"
    using np_dot_nth [of i A _ p B] i lA lB by simp
  also have "\<dots> = (\<Sum>b < p. \<Sum>a < n. A ! i ! a * (B ! a ! b * C ! b ! j))"
    by (simp add: sum_distrib_right mult.assoc)
  also have "\<dots> = (\<Sum>a < n. \<Sum>b < p. A ! i ! a * (B ! a ! b * C ! b ! j))"
    by (rule sum.swap)
  also have "\<dots> = (\<Sum>a < n. A ! i ! a * (\<Sum>b < p. B ! a ! b * C ! b ! j))"
    by (simp add: sum_distrib_left)
  also have "\<dots> = (\<Sum>a < n. A ! i ! a * np_dot q B C ! a ! j)"
    using np_dot_nth [of _ B j q C] j lB lC by simp
  also have "\<dots> = np_dot q A (np_dot q B C) ! i ! j"
    using np_dot_nth [of i A j q "np_dot q B C"] i j lA BC by simp
  finally show "np_dot q (np_dot p A B) C ! i ! j = np_dot q A (np_dot q B C) ! i ! j" .
qed

lemma wf_eye: "wf_matrix p p (eye p)"
  by (simp add: wf_matrix_def eye_def list_all_iff)

lemma eye_nth: "i < p \<Longrightarrow> j < p \<Longrightarrow> eye p ! i ! j = (if i = j then 1 else 0)"
  by (simp add: eye_def)

lemma np_dot_eye_left:
  assumes B: "wf_matrix p k B"
  shows "np_dot k (eye p) B = B"
proof (rule matrix_eqI [of p k])
  show "wf_matrix p k (np_dot k (eye p) B)" by (rule wf_np_dot) (simp add: eye_def)
  show "wf_matrix p k B" by fact
  fix i j assume i: "i < p" and j: "j < k"
  have "np_dot k (eye p) B ! i ! j = (\<Sum>a < p. eye p ! i ! a * B ! a ! j)"
    using np_dot_nth [of i "eye p" j k B] i j B by (simp add: wf_matrixD eye_def)
  also have "\<dots> = (\<Sum>a < p. if a = i then B ! a ! j else 0)"
    using i by (intro sum.cong) (auto simp: eye_nth)
  also have "\<dots> = B ! i ! j" using i by simp
  finally show "np_dot k (eye p) B ! i ! j = B ! i ! j" .
qed

section \<open>Least squares\<close>

lemma wf_frame_values: "wf_matrix n (length Y) (frame_values n Y)"
  by (simp add: wf_matrix_def frame_values_def list_all_iff)

lemma ls_scores_wf:
  "list_all (\<lambda>x. length x = length (betahat m)) samples \<Longrightarrow>
   ls_scores m samples = Return (np_dot (length (ls_classes m)) samples (betahat m))"
  by (simp add: ls_scores_def)

lemma ls_classify_returns:
  assumes "list_all (\<lambda>x. length x = length (betahat m)) samples" "ls_classes m \<noteq> []"
  shows "\<exists>labels. ls_classify m samples = Return labels"
proof -
  have "list_all (\<lambda>r. r \<noteq> []) (np_dot (length (ls_classes m)) samples (betahat m))"
    using assms(2) by (simp add: np_dot_def list_all_iff)
  from apply_idxmax_returns [OF this, of "ls_classes m"] assms(1) show ?thesis
    by (simp add: ls_classify_def ls_scores_wf rbind_def)
qed

text \<open>
  Claim C6. When \<^verbatim>\<open>np.linalg.inv\<close> returns the inverse \<open>G\<close> of \<open>X\<^sup>T X\<close>, the constructor
  returns a classifier whose classes are the distinct labels in ascending order and whose
  coefficient matrix has \<open>p\<close> rows and one column per class in that order, equals \<open>G (X\<^sup>T Y)\<close> for the indicator matrix \<open>Y\<close> of the labels, and
  solves the normal equations \<open>(X\<^sup>T X) B = X\<^sup>T Y\<close>; \<^verbatim>\<open>classify\<close> scores the samples by
  \<open>X' B\<close> and returns for each row the class of the first column holding the maximum.
\<close>

theorem ls_fit_normal_equations:
  assumes X: "wf_matrix n p coords" and y: "length values = n"
    and inv: "linalg_inv (np_dot p (np_transpose p coords) coords) = Some G"
    and G: "is_inverse p (np_dot p (np_transpose p coords) coords) G"
  shows "\<exists>m Y. ls_fit linalg_inv p coords values = Return m
     \<and> indicator_matrix values = Return Y
     \<and> ls_classes m = sorted_set values \<and> map fst Y = ls_classes m
     \<and> sorted (ls_classes m) \<and> distinct (ls_classes m) \<and> set (ls_classes m) = set values
     \<and> wf_matrix p (length (ls_classes m)) (betahat m)
     \<and> betahat m = np_dot (length (ls_classes m)) G
                      (np_dot (length (ls_classes m)) (np_transpose p coords) (frame_values n Y))
     \<and> np_dot (length (ls_classes m)) (np_dot p (np_transpose p coords) coords) (betahat m)
         = np_dot (length (ls_classes m)) (np_transpose p coords) (frame_values n Y)
     \<and> (\<forall>samples. list_all (\<lambda>x. length x = p) samples \<longrightarrow>
           ls_scores m samples = Return (np_dot (length (ls_classes m)) samples (betahat m))
         \<and> (\<forall>labels. ls_classify m samples = Return labels \<longrightarrow>
               (\<forall>i < length samples.
                  first_max_label (ls_classes m)
                    (np_dot (length (ls_classes m)) samples (betahat m) ! i) (labels ! i)))
         \<and> (values \<noteq> [] \<longrightarrow> (\<exists>labels. ls_classify m samples = Return labels)))"
proof -
  let ?Xt = "np_transpose p coords"
  let ?XtX = "np_dot p ?Xt coords"
  let ?cs = "sorted_set values"
  let ?k = "length ?cs"
  define Y where "Y = map (\<lambda>c. (c, map (\<lambda>v. of_bool (v = c) :: int) values)) ?cs"
  let ?Yv = "frame_values n Y"
  define B where "B = np_dot ?k (np_dot n G ?Xt) ?Yv"
  define m where "m = \<lparr>ls_classes = ?cs, betahat = B\<rparr>"
  have Y: "indicator_matrix values = Return Y" by (simp add: indicator_matrix_eq Y_def)
  have lY: "length Y = ?k" by (simp add: Y_def)
  have n: "length coords = n" using X by (simp add: wf_matrixD)
  have fit: "ls_fit linalg_inv p coords values = Return m"
    by (simp add: ls_fit_def Let_def Y rbind_def inv n y m_def B_def)
  have wXt: "wf_matrix p n ?Xt" using wf_np_transpose [of p coords] n by simp
  have wG: "wf_matrix p p G" using G by (simp add: is_inverse_def)
  have wYv: "wf_matrix n ?k ?Yv" using wf_frame_values [of n Y] lY by simp
  have wXtX: "wf_matrix p p ?XtX" by (rule wf_np_dot) (simp add: wf_matrixD [OF wXt])
  have wXtY: "wf_matrix p ?k (np_dot ?k ?Xt ?Yv)" by (rule wf_np_dot) (simp add: wf_matrixD [OF wXt])
  have B1: "B = np_dot ?k G (np_dot ?k ?Xt ?Yv)"
    unfolding B_def by (rule np_dot_assoc [OF wG wXt wYv])
  have wB: "wf_matrix p ?k B" unfolding B_def
    by (rule wf_np_dot) (simp add: np_dot_def wf_matrixD [OF wG])
  have "np_dot ?k ?XtX B = np_dot ?k (np_dot p ?XtX G) (np_dot ?k ?Xt ?Yv)"
    unfolding B1 by (rule np_dot_assoc [OF wXtX wG wXtY, symmetric])
  also have "\<dots> = np_dot ?k (eye p) (np_dot ?k ?Xt ?Yv)"
    using G by (simp add: is_inverse_def)
  also have "\<dots> = np_dot ?k ?Xt ?Yv" by (rule np_dot_eye_left [OF wXtY])
  finally have ne: "np_dot ?k ?XtX B = np_dot ?k ?Xt ?Yv" .
  have lB: "length (betahat m) = p" using wB by (simp add: m_def wf_matrixD)
  have cls: "\<forall>samples. list_all (\<lambda>x. length x = p) samples \<longrightarrow>
           ls_scores m samples = Return (np_dot (length (ls_classes m)) samples (betahat m))
         \<and> (\<forall>labels. ls_classify m samples = Return labels \<longrightarrow>
               (\<forall>i < length samples.
                  first_max_label (ls_classes m)
                    (np_dot (length (ls_classes m)) samples (betahat m) ! i) (labels ! i)))
         \<and> (values \<noteq> [] \<longrightarrow> (\<exists>labels. ls_classify m samples = Return labels))"
  proof (intro allI impI conjI)
    fix samples :: matrix assume s: "list_all (\<lambda>x. length x = p) samples"
    then have s': "list_all (\<lambda>x. length x = length (betahat m)) samples" by (simp add: lB)
    show sc: "ls_scores m samples = Return (np_dot (length (ls_classes m)) samples (betahat m))"
      by (rule ls_scores_wf [OF s'])
    { fix labels i assume "ls_classify m samples = Return labels" "i < length samples"
      with ls_classify_first_max [of m samples labels] sc
      show "first_max_label (ls_classes m)
              (np_dot (length (ls_classes m)) samples (betahat m) ! i) (labels ! i)"
        by auto }
    { assume "values \<noteq> []"
      then have "ls_classes m \<noteq> []"
        using sorted_set_props(3) [of "values"] by (auto simp: m_def)
      from ls_classify_returns [OF s' this]
      show "\<exists>labels. ls_classify m samples = Return labels" . }
  qed
  have srt: "sorted (ls_classes m)" "distinct (ls_classes m)" "set (ls_classes m) = set values"
    by (simp_all add: m_def sorted_set_def)
  show ?thesis
    apply (rule exI [of _ m], rule exI [of _ Y])
    using fit Y cls wB B1 ne srt by (simp add: m_def Y_def o_def)
qed

theorem ls_fit_normal_equations_witness:
  "wf_matrix 6 2 X0 \<and> length y0 = 6
   \<and> inv2 (np_dot 2 (np_transpose 2 X0) X0) = Some [[29 / 114, - 14 / 57], [- 14 / 57, 29 / 114]]
   \<and> is_inverse 2 (np_dot 2 (np_transpose 2 X0) X0) [[29 / 114, - 14 / 57], [- 14 / 57, 29 / 114]]
   \<and> ls_fit inv2 2 X0 y0 = Return ls0 \<and> ls_classes ls0 = [0, 1] \<and> sorted (ls_classes ls0)
   \<and> np_dot 2 (np_dot 2 (np_transpose 2 X0) X0) (betahat ls0) = [[1, 13], [1, 13]]
   \<and> ls_scores ls0 S0 = Return (np_dot 2 S0 (betahat ls0))
   \<and> ls_classify ls0 S0 = Return [0, 1, 1]"
proof -
  have h: "wf_matrix 6 2 X0" "length y0 = 6"
    "inv2 (np_dot 2 (np_transpose 2 X0) X0) = Some [[29 / 114, - 14 / 57], [- 14 / 57, 29 / 114]]"
    "is_inverse 2 (np_dot 2 (np_transpose 2 X0) X0) [[29 / 114, - 14 / 57], [- 14 / 57, 29 / 114]]"
    by code_simp+
  have e: "np_dot 2 (np_dot 2 (np_transpose 2 X0) X0) (betahat ls0) = [[1, 13], [1, 13]]"
    "ls_scores ls0 S0 = Return (np_dot 2 S0 (betahat ls0))"
    by code_simp+
  note t = ls_fit_normal_equations [of 6 2 X0 y0 inv2 "[[29 / 114, - 14 / 57], [- 14 / 57, 29 / 114]]",
      OF h]
  from t obtain m and Y :: "(int, int) frame" where "ls_fit inv2 2 X0 y0 = Return m"
    "sorted (ls_classes m)"
    "np_dot (length (ls_classes m)) (np_dot 2 (np_transpose 2 X0) X0) (betahat m)
         = np_dot (length (ls_classes m)) (np_transpose 2 X0) (frame_values 6 Y)"
    by blast
  with h e ls_fit_example ls_classify_example show ?thesis by (simp add: example_classes)
qed

end
